theory Spec2Isabelle
  imports Main "HOL-Library.List_Lexorder"
begin

section \<open>Python values\<close>

text \<open>
  A Python \<open>str\<close> is the list of its Unicode code points, so that \<open>len\<close> is
  \<open>length\<close> and \<open>sorted\<close> on strings is the lexicographic order on code points.
  String literals of the source that are plain ASCII are written \<open>ascii ''...''\<close>; the
  Korean literals are spelled out as code points, with the source text quoted beside them.
\<close>

type_synonym ustr = "nat list"

definition ascii :: "string \<Rightarrow> ustr" where
  "ascii s = map of_char s"

text \<open>
  JSON-like values: what the handlers return and what the job record stores as its result.
  A \<open>dict\<close> keeps insertion order; its keys are the ASCII literals of the source.
  \<open>JDict\<close> is a dictionary whose keys are computed strings. \<open>JOther\<close> is a value the
  handlers pass through without looking inside (a float coordinate, an enum member), kept
  as its text.
\<close>

datatype json =
    JNull
  | JBool bool
  | JInt int
  | JStr ustr
  | JOther ustr
  | JList "json list"
  | JObj "(string \<times> json) list"
  | JDict "(ustr \<times> json) list"

type_synonym dict = "(string \<times> json) list"

text \<open>\<open>d[k] = v\<close>: an existing key keeps its place, a new key goes last.\<close>

fun dict_set :: "('k \<times> 'v) list \<Rightarrow> 'k \<Rightarrow> 'v \<Rightarrow> ('k \<times> 'v) list" where
  "dict_set [] k v = [(k, v)]"
| "dict_set ((k', v') # d) k v = (if k' = k then (k, v) # d else (k', v') # dict_set d k v)"

text \<open>\<open>d.get(k)\<close>, with \<open>None\<close> for a missing key.\<close>

definition dict_get :: "dict \<Rightarrow> string \<Rightarrow> json option" where
  "dict_get d k = map_of d k"

text \<open>
  An exception raised by one of the external libraries is kept as its text, \<open>str(e)\<close>.
  A call that may raise returns \<open>Inl\<close> of that text.
\<close>

type_synonym exn = ustr

text \<open>Sequencing of calls that may raise: the first exception ends the sequence.\<close>

definition bind_exn :: "exn + 'a \<Rightarrow> ('a \<Rightarrow> exn + 'b) \<Rightarrow> exn + 'b" where
  "bind_exn r f = (case r of Inl e \<Rightarrow> Inl e | Inr x \<Rightarrow> f x)"

text \<open>\<open>sep.join(parts)\<close>.\<close>

fun join :: "ustr \<Rightarrow> ustr list \<Rightarrow> ustr" where
  "join sep [] = []"
| "join sep [x] = x"
| "join sep (x # y # ys) = x @ sep @ join sep (y # ys)"

text \<open>\<open>str(n)\<close> for a natural number: its decimal digits.\<close>

fun str_nat :: "nat \<Rightarrow> ustr" where
  "str_nat n = (if n < 10 then [48 + n] else str_nat (n div 10) @ [48 + n mod 10])"

declare str_nat.simps [simp del]

section \<open>Module constants\<close>

definition EMBED_MODEL_ID :: ustr where
  "EMBED_MODEL_ID = ascii ''sentence-transformers/paraphrase-multilingual-MiniLM-L12-v2''"

definition MAX_TOKENS :: int where
  "MAX_TOKENS = 512"

text \<open>
  \<open>SUPPORTED_EXTENSIONS\<close>: extension to description, in the order of the source. The
  descriptions are Korean text after an ASCII prefix, given by code point.
\<close>

definition SUPPORTED_EXTENSIONS :: "(ustr \<times> ustr) list" where
  "SUPPORTED_EXTENSIONS =
    [(ascii ''.pdf'', [80, 68, 70, 32, 47928, 49436]),
     (ascii ''.docx'', [87, 111, 114, 100, 32, 47928, 49436]),
     (ascii ''.xlsx'', [69, 120, 99, 101, 108, 32, 49828, 54532, 47112, 46300, 49884, 53944]),
     (ascii ''.pptx'', [80, 111, 119, 101, 114, 80, 111, 105, 110, 116, 32,
                        54532, 47112, 51232, 53580, 51060, 49496]),
     (ascii ''.html'', [72, 84, 77, 76, 32, 54028, 51068]),
     (ascii ''.htm'', [72, 84, 77, 76, 32, 54028, 51068]),
     (ascii ''.md'', [77, 97, 114, 107, 100, 111, 119, 110, 32, 54028, 51068]),
     (ascii ''.txt'', [53581, 49828, 53944, 32, 54028, 51068]),
     (ascii ''.json'', [74, 83, 79, 78, 32, 54028, 51068]),
     (ascii ''.xml'', [88, 77, 76, 32, 54028, 51068]),
     (ascii ''.csv'', [67, 83, 86, 32, 54028, 51068]),
     (ascii ''.jpg'', [74, 80, 69, 71, 32, 51060, 48120, 51648]),
     (ascii ''.jpeg'', [74, 80, 69, 71, 32, 51060, 48120, 51648]),
     (ascii ''.png'', [80, 78, 71, 32, 51060, 48120, 51648]),
     (ascii ''.gif'', [71, 73, 70, 32, 51060, 48120, 51648]),
     (ascii ''.bmp'', [66, 77, 80, 32, 51060, 48120, 51648])]"

text \<open>\<open>ext in SUPPORTED_EXTENSIONS\<close>.\<close>

definition supported :: "ustr \<Rightarrow> bool" where
  "supported ext \<longleftrightarrow> map_of SUPPORTED_EXTENSIONS ext \<noteq> None"

text \<open>\<open>SUPPORTED_EXTENSIONS.get(ext, default)\<close>, the default being the Korean for "unknown".\<close>

definition file_type_of :: "ustr \<Rightarrow> ustr" where
  "file_type_of ext =
     (case map_of SUPPORTED_EXTENSIONS ext of
        Some d \<Rightarrow> d
      | None \<Rightarrow> [50508, 32, 49688, 32, 50630, 51020])"

section \<open>The external libraries\<close>

text \<open>
  Docling, the tokenizer, openpyxl and the standard library are outside the repository.
  They are parameters of the model: a record of functions, each returning \<open>Inl\<close> of
  the exception text where the call may raise. The objects they hand back are records of
  what the handlers read from them; an attribute that the source probes with
  \<open>hasattr\<close> is an \<open>option\<close>, \<open>None\<close> when the object does not have it.
\<close>

type_synonym bytes = "nat list"

record bbox =
  bbox_l :: "json option"
  bbox_t :: "json option"
  bbox_r :: "json option"
  bbox_b :: "json option"
  coord_origin :: "json option"

record prov =
  page_no :: "int option"
  prov_bbox :: "bbox option"
  charspan :: "json option"
  sheet_name :: "ustr option"
  page_name :: "ustr option"

text \<open>\<open>item_prov\<close> is \<open>None\<close> when the item has no \<open>prov\<close> or it is not a list.\<close>

record doc_item =
  item_label :: "json option"
  item_prov :: "prov list option"

text \<open>
  \<open>export_json_dict\<close> is the result of calling the method, when the object has it;
  \<open>meta_str\<close> is \<open>str(chunk.meta)\<close>; \<open>meta_dir\<close> is \<open>dir(chunk.meta)\<close>.
\<close>

record meta =
  export_json_dict :: "(exn + json) option"
  meta_str :: ustr
  doc_items :: "doc_item list option"
  meta_dir :: "ustr list"

record chunk =
  chunk_text :: ustr
  chunk_meta :: "meta option"
  chunk_dir :: "ustr list"

text \<open>
  A converted document. \<open>doc_pages\<close> is \<open>len(doc.pages)\<close> when the document has a
  \<open>pages\<close> attribute (a container: true when not empty). \<open>doc_main_text\<close> is present
  when the document has a \<open>main_text\<close> with a \<open>page\<close> attribute; it lists, per item,
  \<open>item.prov.page\<close> when the item has one. \<open>doc_body\<close> is the rest of the document,
  which only the chunker reads.
\<close>

record document =
  export_to_markdown :: "exn + ustr"
  doc_pages :: "nat option"
  doc_main_text :: "int option list option"
  doc_body :: ustr

record tokenizer =
  count_tokens :: "(ustr \<Rightarrow> exn + int) option"

record chunker =
  chunk_doc :: "document \<Rightarrow> exn + chunk list"
  contextualize :: "chunk \<Rightarrow> exn + ustr"

text \<open>
  \<open>tokenizer\<close> and \<open>chunker\<close> are the two module-level objects. \<open>make_tokenizer m\<close>
  is \<open>HuggingFaceTokenizer(tokenizer=AutoTokenizer.from_pretrained(EMBED_MODEL_ID),
  max_tokens=m)\<close> and \<open>make_chunker t\<close> is \<open>HybridChunker(tokenizer=t, merge_peers=True)\<close>.
  \<open>convert name content\<close> is \<open>doc_converter.convert(path).document\<close> for a path with
  that file name, \<open>content\<close> being what the file holds, or \<open>None\<close> when there is no such
  file; \<open>sheetnames\<close> is openpyxl's \<open>load_workbook(path).sheetnames\<close> in the same way.
  \<open>suffix_lower\<close> is \<open>Path(name).suffix.lower()\<close>, \<open>stem\<close> is \<open>Path(name).stem\<close>,
  \<open>guess_type\<close> is \<open>mimetypes.guess_type(name)[0]\<close>. \<open>write_error\<close> says whether
  storing an upload under its name in a fresh directory raises, \<open>rmtree_fails now d\<close>
  whether removing the existing directory \<open>d\<close> raises at time \<open>now\<close>. \<open>uuid_text\<close> is the text of the n-th identifier that
  \<open>uuid.uuid4()\<close> draws, \<open>isoformat\<close> the text of a time stamp. \<open>encode_error h\<close> is
  the text of the \<open>UnicodeEncodeError\<close> that encoding \<open>h\<close> as Latin-1 raises.
\<close>

record externals =
  tokenizer :: tokenizer
  chunker :: chunker
  make_tokenizer :: "int \<Rightarrow> exn + tokenizer"
  make_chunker :: "tokenizer \<Rightarrow> exn + chunker"
  convert :: "ustr \<Rightarrow> bytes option \<Rightarrow> exn + document"
  sheetnames :: "ustr \<Rightarrow> bytes option \<Rightarrow> exn + ustr list"
  suffix_lower :: "ustr \<Rightarrow> ustr"
  stem :: "ustr \<Rightarrow> ustr"
  guess_type :: "ustr \<Rightarrow> ustr option"
  write_error :: "ustr \<Rightarrow> bytes \<Rightarrow> exn option"
  rmtree_fails :: "nat \<Rightarrow> nat \<Rightarrow> bool"
  uuid_text :: "nat \<Rightarrow> ustr"
  isoformat :: "nat \<Rightarrow> ustr"
  encode_error :: "ustr \<Rightarrow> exn"

section \<open>Chunk records\<close>

text \<open>
  The body of the loop over the chunks is the same text in \<open>convert_file_chunked\<close>
  (lines 275 to 374) and in \<open>process_chunking_job\<close> (lines 483 to 575), but for the two
  debug fields that only the former writes. A Python \<open>set\<close> is modelled by the list of
  the elements added to it: the source reads its sets through \<open>sorted\<close>, through their
  truth value and size, and through \<open>list(s)[0]\<close> when the size is one.
\<close>

definition opt_json :: "json option \<Rightarrow> json \<Rightarrow> json" where
  "opt_json a d = (case a of Some v \<Rightarrow> v | None \<Rightarrow> d)"

text \<open>Lines 313 to 332: the \<open>bbox_info\<close> entry of one provenance item with a page.\<close>

definition bbox_info :: "doc_item \<Rightarrow> prov \<Rightarrow> int \<Rightarrow> dict" where
  "bbox_info doc_item p n =
    (let info = [(''page'', JInt n),
                 (''label'', opt_json (item_label doc_item) (JStr (ascii ''unknown'')))];
         info = (case prov_bbox p of
                   Some bb \<Rightarrow> dict_set info ''bbox'' (JObj
                     [(''l'', opt_json (bbox_l bb) (JInt 0)),
                      (''t'', opt_json (bbox_t bb) (JInt 0)),
                      (''r'', opt_json (bbox_r bb) (JInt 0)),
                      (''b'', opt_json (bbox_b bb) (JInt 0)),
                      (''coord_origin'', opt_json (coord_origin bb) (JStr (ascii ''BOTTOMLEFT'')))])
                 | None \<Rightarrow> info);
         info = (case charspan p of
                   Some cs \<Rightarrow> dict_set info ''charspan'' cs
                 | None \<Rightarrow> info)
     in info)"

text \<open>
  The state of the extraction loops: \<open>page_numbers\<close>, \<open>bbox_data\<close>, \<open>sheet_names\<close>.
\<close>

type_synonym provenance = "int list \<times> json list \<times> ustr list"

text \<open>Lines 308 to 338: one \<open>prov\<close> of one \<open>doc_item\<close>.\<close>

definition prov_step :: "doc_item \<Rightarrow> provenance \<Rightarrow> prov \<Rightarrow> provenance" where
  "prov_step doc_item acc p =
    (case acc of (page_numbers, bbox_data, sheet_names) \<Rightarrow>
      (let (page_numbers, bbox_data) =
             (case page_no p of
                Some n \<Rightarrow>
                  if n > 0 then (page_numbers @ [n], bbox_data @ [JObj (bbox_info doc_item p n)])
                  else (page_numbers, bbox_data)
              | None \<Rightarrow> (page_numbers, bbox_data));
           sheet_names =
             (case sheet_name p of
                Some s \<Rightarrow> sheet_names @ [s]
              | None \<Rightarrow>
                  (case page_name p of
                     Some s \<Rightarrow> sheet_names @ [s]
                   | None \<Rightarrow> sheet_names))
       in (page_numbers, bbox_data, sheet_names)))"

text \<open>Lines 306 to 308: the loop over the items, each with its loop over \<open>prov\<close>.\<close>

definition item_step :: "provenance \<Rightarrow> doc_item \<Rightarrow> provenance" where
  "item_step acc doc_item =
    (case item_prov doc_item of
       Some ps \<Rightarrow> foldl (prov_step doc_item) acc ps
     | None \<Rightarrow> acc)"

text \<open>Lines 300 to 338.\<close>

definition extract_provenance :: "chunk \<Rightarrow> provenance" where
  "extract_provenance c =
    (case chunk_meta c of
       None \<Rightarrow> ([], [], [])
     | Some m \<Rightarrow>
         (case doc_items m of
            None \<Rightarrow> ([], [], [])
          | Some items \<Rightarrow> foldl item_step ([], [], []) items))"

text \<open>\<open>sorted(list(s))\<close> for a set \<open>s\<close> given by the elements added.\<close>

definition sorted_set :: "'a::linorder list \<Rightarrow> 'a list" where
  "sorted_set xs = sort (remdups xs)"

text \<open>
  Lines 352 to 356: the sheets named by the page numbers, in ascending order. The source
  indexes \<open>excel_sheets[page_no - 1]\<close> only for \<open>0 < page_no \<le> len(excel_sheets)\<close>.
\<close>

definition matched_sheets :: "ustr list \<Rightarrow> int list \<Rightarrow> ustr list" where
  "matched_sheets excel_sheets page_numbers =
     map (\<lambda>n. excel_sheets ! nat (n - 1))
       (filter (\<lambda>n. n \<le> int (length excel_sheets)) (sorted_set page_numbers))"

text \<open>Lines 340 to 372: the page, sheet and section fields, then \<open>bbox_info\<close>.\<close>

definition page_fields :: "ustr \<Rightarrow> ustr list \<Rightarrow> nat \<Rightarrow> provenance \<Rightarrow> dict \<Rightarrow> dict" where
  "page_fields file_extension excel_sheets i pv chunk_info =
    (case pv of (page_numbers, bbox_data, sheet_names) \<Rightarrow>
      (let chunk_info =
        (if file_extension = ascii ''.xlsx'' then
           (let chunk_info = dict_set chunk_info ''page_info'' (JList []);
                chunk_info = dict_set chunk_info ''pages'' (JList [])
            in if sheet_names \<noteq> [] then
                 (let chunk_info = dict_set chunk_info ''sheet_names''
                                     (JList (map JStr (sorted_set sheet_names)))
                  in dict_set chunk_info ''sheet''
                       (if length (remdups sheet_names) = 1 then JStr (hd (remdups sheet_names))
                        else JList (map JStr (sorted_set sheet_names))))
               else if excel_sheets \<noteq> [] \<and> page_numbers \<noteq> [] then
                 (let matched = matched_sheets excel_sheets page_numbers
                  in if matched \<noteq> [] then
                       (let chunk_info = dict_set chunk_info ''sheet_names'' (JList (map JStr matched));
                            chunk_info = dict_set chunk_info ''sheet''
                              (if length matched = 1 then JStr (hd matched)
                               else JList (map JStr matched))
                        in dict_set chunk_info ''sheet_index''
                             (JList (map JInt (sorted_set page_numbers))))
                     else chunk_info)
               else chunk_info)
         else if page_numbers \<noteq> [] then
           (let chunk_info = dict_set chunk_info ''page_info'' (JList (map JInt (sorted_set page_numbers)))
            in dict_set chunk_info ''pages'' (JList (map JInt (sorted_set page_numbers))))
         else
           (let chunk_info = dict_set chunk_info ''page_info'' (JList []);
                chunk_info = dict_set chunk_info ''pages'' (JList [])
            in dict_set chunk_info ''section_index'' (JInt (int i + 1))))
       in dict_set chunk_info ''bbox_info'' (JList bbox_data)))"

text \<open>
  Lines 276 to 281: the first four fields. \<open>token_count\<close> asks the module-level
  \<open>tokenizer\<close>, whichever chunker is active.
\<close>

definition chunk_base :: "externals \<Rightarrow> nat \<Rightarrow> chunk \<Rightarrow> exn + dict" where
  "chunk_base ex i c =
    bind_exn
      (case count_tokens (tokenizer ex) of
         Some count \<Rightarrow> bind_exn (count (chunk_text c)) (\<lambda>n. Inr (JInt n))
       | None \<Rightarrow> Inr JNull)
      (\<lambda>tc. Inr [(''chunk_id'', JInt (int i + 1)),
                 (''text'', JStr (chunk_text c)),
                 (''text_length'', JInt (int (length (chunk_text c)))),
                 (''token_count'', tc)])"

text \<open>Lines 284 to 287.\<close>

definition add_context :: "chunker \<Rightarrow> bool \<Rightarrow> chunk \<Rightarrow> dict \<Rightarrow> exn + dict" where
  "add_context active_chunker ctx c chunk_info =
    (if ctx then
       bind_exn (contextualize active_chunker c) (\<lambda>enriched_text.
         Inr (dict_set (dict_set chunk_info ''contextualized_text'' (JStr enriched_text))
                ''contextualized_length'' (JInt (int (length enriched_text)))))
     else Inr chunk_info)"

text \<open>Lines 291 and 292.\<close>

definition add_metadata :: "chunk \<Rightarrow> dict \<Rightarrow> exn + dict" where
  "add_metadata c chunk_info =
    (case chunk_meta c of
       Some m \<Rightarrow>
         (case export_json_dict m of
            Some exported \<Rightarrow> bind_exn exported (\<lambda>j. Inr (dict_set chunk_info ''metadata'' j))
          | None \<Rightarrow> Inr (dict_set chunk_info ''metadata'' (JStr (meta_str m))))
     | None \<Rightarrow> Inr chunk_info)"

text \<open>\<open>[attr for attr in names if not attr.startswith('_')]\<close>; 95 is the underscore.\<close>

definition public_attrs :: "ustr list \<Rightarrow> json" where
  "public_attrs names = JList (map JStr (filter (\<lambda>attr. take 1 attr \<noteq> [95]) names))"

text \<open>Lines 295 to 297, in \<open>convert_file_chunked\<close> only.\<close>

definition add_debug :: "chunk \<Rightarrow> dict \<Rightarrow> dict" where
  "add_debug c chunk_info =
    (let chunk_info = dict_set chunk_info ''debug_chunk_attrs'' (public_attrs (chunk_dir c))
     in case chunk_meta c of
          Some m \<Rightarrow> dict_set chunk_info ''debug_meta_attrs'' (public_attrs (meta_dir m))
        | None \<Rightarrow> chunk_info)"

text \<open>Lines 276 to 372 of \<open>convert_file_chunked\<close>: the record of chunk \<open>i\<close> (from 0).\<close>

definition chunk_info_sync ::
  "externals \<Rightarrow> chunker \<Rightarrow> bool \<Rightarrow> ustr \<Rightarrow> ustr list \<Rightarrow> nat \<Rightarrow> chunk \<Rightarrow> exn + dict" where
  "chunk_info_sync ex active_chunker ctx file_extension excel_sheets i c =
    bind_exn (chunk_base ex i c) (\<lambda>chunk_info.
    bind_exn (add_context active_chunker ctx c chunk_info) (\<lambda>chunk_info.
    bind_exn (add_metadata c chunk_info) (\<lambda>chunk_info.
      Inr (page_fields file_extension excel_sheets i (extract_provenance c)
             (add_debug c chunk_info)))))"

text \<open>Lines 484 to 573 of \<open>process_chunking_job\<close>.\<close>

definition chunk_info_async ::
  "externals \<Rightarrow> chunker \<Rightarrow> bool \<Rightarrow> ustr \<Rightarrow> ustr list \<Rightarrow> nat \<Rightarrow> chunk \<Rightarrow> exn + dict" where
  "chunk_info_async ex active_chunker ctx file_extension excel_sheets i c =
    bind_exn (chunk_base ex i c) (\<lambda>chunk_info.
    bind_exn (add_context active_chunker ctx c chunk_info) (\<lambda>chunk_info.
    bind_exn (add_metadata c chunk_info) (\<lambda>chunk_info.
      Inr (page_fields file_extension excel_sheets i (extract_provenance c) chunk_info))))"

text \<open>
  The loops \<open>for i, chunk in enumerate(chunks)\<close> with \<open>chunk_data.append(chunk_info)\<close>;
  \<open>i\<close> is the index of the first chunk of the list.
\<close>

fun chunk_data_sync ::
  "externals \<Rightarrow> chunker \<Rightarrow> bool \<Rightarrow> ustr \<Rightarrow> ustr list \<Rightarrow> nat \<Rightarrow> chunk list \<Rightarrow> exn + json list" where
  "chunk_data_sync ex ac ctx ext sheets i [] = Inr []"
| "chunk_data_sync ex ac ctx ext sheets i (c # cs) =
    bind_exn (chunk_info_sync ex ac ctx ext sheets i c) (\<lambda>chunk_info.
    bind_exn (chunk_data_sync ex ac ctx ext sheets (Suc i) cs) (\<lambda>chunk_data.
      Inr (JObj chunk_info # chunk_data)))"

fun chunk_data_async ::
  "externals \<Rightarrow> chunker \<Rightarrow> bool \<Rightarrow> ustr \<Rightarrow> ustr list \<Rightarrow> nat \<Rightarrow> chunk list \<Rightarrow> exn + json list" where
  "chunk_data_async ex ac ctx ext sheets i [] = Inr []"
| "chunk_data_async ex ac ctx ext sheets i (c # cs) =
    bind_exn (chunk_info_async ex ac ctx ext sheets i c) (\<lambda>chunk_info.
    bind_exn (chunk_data_async ex ac ctx ext sheets (Suc i) cs) (\<lambda>chunk_data.
      Inr (JObj chunk_info # chunk_data)))"

section \<open>The steps shared by the chunking handlers\<close>

text \<open>
  Lines 241 to 252 and 448 to 459: a \<open>max_tokens\<close> that is given, not zero and not the
  default builds a tokenizer and a chunker of its own.
\<close>

definition select_chunker :: "externals \<Rightarrow> int option \<Rightarrow> exn + chunker" where
  "select_chunker ex max_tokens =
    (case max_tokens of
       Some m \<Rightarrow>
         if m \<noteq> 0 \<and> m \<noteq> MAX_TOKENS then
           bind_exn (make_tokenizer ex m) (\<lambda>custom_tokenizer. make_chunker ex custom_tokenizer)
         else Inr (chunker ex)
     | None \<Rightarrow> Inr (chunker ex))"

text \<open>
  Lines 259 to 268 and 462 to 471: the sheet names of a workbook; a failure is logged and
  leaves the list empty. \<open>content\<close> is what the file at the path holds, if it exists.
\<close>

definition load_excel_sheets :: "externals \<Rightarrow> ustr \<Rightarrow> ustr \<Rightarrow> bytes option \<Rightarrow> ustr list" where
  "load_excel_sheets ex file_extension name content =
    (if file_extension = ascii ''.xlsx'' then
       (case sheetnames ex name content of Inl e \<Rightarrow> [] | Inr names \<Rightarrow> names)
     else [])"

text \<open>\<open>max_tokens or MAX_TOKENS\<close>.\<close>

definition max_tokens_or_default :: "int option \<Rightarrow> int" where
  "max_tokens_or_default max_tokens =
    (case max_tokens of Some m \<Rightarrow> if m \<noteq> 0 then m else MAX_TOKENS | None \<Rightarrow> MAX_TOKENS)"

text \<open>Lines 377 to 389 and 578 to 590: the payload without its optional parts.\<close>

definition payload :: "ustr \<Rightarrow> ustr \<Rightarrow> int option \<Rightarrow> bool \<Rightarrow> chunk list \<Rightarrow> json list \<Rightarrow> dict" where
  "payload name file_extension max_tokens ctx chunks chunk_data =
    [(''success'', JBool True),
     (''filename'', JStr name),
     (''file_type'', JStr (file_type_of file_extension)),
     (''total_chunks'', JInt (int (length chunks))),
     (''chunking_config'', JObj
        [(''tokenizer'', JStr EMBED_MODEL_ID),
         (''max_tokens'', JInt (max_tokens_or_default max_tokens)),
         (''merge_peers'', JBool True),
         (''contextualize'', JBool ctx)]),
     (''chunks'', JList chunk_data)]"

text \<open>Lines 393 to 402: the page count of the whole document.\<close>

definition total_pages :: "document \<Rightarrow> int" where
  "total_pages doc =
    (case doc_pages doc of
       Some (Suc n) \<Rightarrow> int (Suc n)
     | _ \<Rightarrow>
        (case doc_main_text doc of
           Some items \<Rightarrow>
             foldl (\<lambda>max_page item. case item of Some pg \<Rightarrow> max max_page pg | None \<Rightarrow> max_page)
               0 items
         | None \<Rightarrow> 0))"

text \<open>Lines 404 to 409.\<close>

definition file_metadata :: "externals \<Rightarrow> ustr \<Rightarrow> bytes \<Rightarrow> ustr \<Rightarrow> document \<Rightarrow> json" where
  "file_metadata ex name content file_extension doc =
    JObj [(''original_file_size'', JInt (int (length content))),
          (''mime_type'', (case guess_type ex name of Some t \<Rightarrow> JStr t | None \<Rightarrow> JNull)),
          (''extension'', JStr file_extension),
          (''total_pages'', (if total_pages doc > 0 then JInt (total_pages doc) else JNull))]"

section \<open>The state of the server\<close>

text \<open>
  A workspace is a directory made by \<open>tempfile\<close>; it is named by the number of the call
  that made it, so that no name is handed out twice. A job identifier is the number of the
  \<open>uuid.uuid4()\<close> call that drew it, for the same reason. A path
  \<open>os.path.join(temp_dir, name)\<close> is the pair of the directory and the file name.
\<close>

type_synonym dir = nat
type_synonym job_id = nat
type_synonym path = "dir \<times> ustr"

datatype status = Queued | Processing | Completed | Failed

fun status_text :: "status \<Rightarrow> ustr" where
  "status_text Queued = ascii ''queued''"
| "status_text Processing = ascii ''processing''"
| "status_text Completed = ascii ''completed''"
| "status_text Failed = ascii ''failed''"

record upload =
  filename :: ustr
  content :: bytes

text \<open>
  A record of \<open>job_store\<close>. The keys that a record only gets later (\<open>result\<close>,
  \<open>completed_at\<close>, \<open>error\<close>, \<open>failed_at\<close>) are \<open>None\<close> until they are written.
\<close>

record job =
  job_id :: job_id
  status :: status
  progress :: int
  message :: ustr
  job_filename :: ustr
  file_size :: nat
  created_at :: ustr
  temp_dir :: dir
  result :: "json option"
  completed_at :: "ustr option"
  error :: "ustr option"
  failed_at :: "ustr option"

text \<open>
  The calls that leave the process, in the order they are made: a ghost field of the
  state, so that a theorem can say that none was made. \<open>Rmtree\<close> carries the place of the
  call and whether the directory was removed.
\<close>

datatype site = With_exit | Line_618 job_id | Line_700 | Line_758 job_id

datatype call =
    Mkdtemp dir
  | Write dir ustr
  | Convert dir ustr
  | Export_markdown
  | Make_tokenizer int
  | Sheetnames dir ustr
  | Chunk
  | Rmtree site dir bool

text \<open>The messages of the source, Korean text given by code point.\<close>

definition msg_queued :: ustr where
  "msg_queued = [51089, 50629, 32, 45824, 44592, 32, 51473, 46, 46, 46]"

definition msg_converting :: ustr where
  "msg_converting = [47928, 49436, 32, 48320, 54872, 32, 51473, 46, 46, 46]"

definition msg_chunking :: ustr where
  "msg_chunking = [52397, 53433, 32, 51473, 46, 46, 46]"

definition msg_metadata :: ustr where
  "msg_metadata = [52397, 53356, 32, 47700, 53440, 45936, 51060, 53552, 32, 52376, 47532, 32, 51473, 46,
     46, 46]"

definition msg_done :: ustr where
  "msg_done = [52376, 47532, 32, 50756, 47308]"

text \<open>Line 690; the braces are part of the text, it is not an f-string.\<close>

definition msg_started :: ustr where
  "msg_started = [51089, 50629, 51060, 32, 49884, 51089, 46104, 50632, 49845, 45768, 45796, 46, 32, 47,
     106, 111, 98, 47, 123, 106, 111, 98, 95, 105, 100, 125, 32, 50644, 46300, 54252, 51064,
     53944, 47196, 32, 49345, 53468, 47484, 32, 54869, 51064, 54616, 49464, 50836, 46]"

text \<open>Lines 715 and 751: the text around the identifier.\<close>

definition not_found_detail :: "ustr \<Rightarrow> ustr" where
  "not_found_detail id_text =
     [51089, 50629, 32, 73, 68, 32, 39] @ id_text @
     [39, 47484, 32, 52286, 51012, 32, 49688, 32, 50630, 49845, 45768, 45796, 46]"

text \<open>Line 766.\<close>

definition deleted_message :: "ustr \<Rightarrow> ustr" where
  "deleted_message id_text =
     [51089, 50629, 32] @ id_text @
     [44032, 32, 49325, 51228, 46104, 50632, 49845, 45768, 45796, 46]"

text \<open>Lines 150 to 153, 226 to 229 and 641 to 645: the text, then the extensions.\<close>

definition unsupported_detail :: ustr where
  "unsupported_detail =
     [51648, 50896, 46104, 51648, 32, 50506, 45716, 32, 54028, 51068, 32, 54805, 49885, 51077,
     45768, 45796, 46, 32, 51648, 50896, 32, 54805, 49885, 58, 32] @
     join (ascii '', '') (map fst SUPPORTED_EXTENSIONS)"

text \<open>Line 210.\<close>

definition convert_failed_detail :: "exn \<Rightarrow> ustr" where
  "convert_failed_detail e =
     [54028, 51068, 32, 48320, 54872, 32, 51473, 32, 50724, 47448, 44032, 32, 48156, 49373,
     54664, 49845, 45768, 45796, 58, 32] @ e"

text \<open>Line 702.\<close>

definition create_failed_detail :: "exn \<Rightarrow> ustr" where
  "create_failed_detail e =
     [51089, 50629, 32, 49373, 49457, 32, 51473, 32, 50724, 47448, 44032, 32, 48156, 49373,
     54664, 49845, 45768, 45796, 58, 32] @ e"

text \<open>Line 807.\<close>

definition too_many_detail :: ustr where
  "too_many_detail =
     [54620, 32, 48264, 50640, 32, 52572, 45824, 32, 49, 48, 44060, 32, 54028, 51068, 44620,
     51648, 32, 52376, 47532, 32, 44032, 45733, 54633, 45768, 45796, 46]"

text \<open>Line 822.\<close>

definition unsupported_short :: ustr where
  "unsupported_short = [51648, 50896, 46104, 51648, 32, 50506, 45716, 32, 54028, 51068, 32, 54805, 49885]"

text \<open>Line 901.\<close>

definition none_convertible_detail :: ustr where
  "none_convertible_detail =
     [48320, 54872, 32, 44032, 45733, 54620, 32, 54028, 51068, 51060, 32, 50630, 49845, 45768,
     45796, 46]"

text \<open>Lines 185 and 188: the heading of chunk \<open>i\<close> (from 0), then its text; 10 is the line feed.\<close>

definition markdown_part :: "nat \<Rightarrow> ustr \<Rightarrow> ustr" where
  "markdown_part i t = [35, 35, 32, 52397, 53356, 32] @ str_nat (i + 1) @ [10, 10] @ t @ [10]"

text \<open>
  The frame of one background execution of \<open>process_chunking_job\<close>: where it stands and
  the arguments it was scheduled with. A program point is named by the line of the
  statement that runs next and carries the local variables that are live there; an
  exception on its way to the handler is the argument of \<open>L607\<close>. \<open>L614\<close> and the two
  points after it are the \<open>finally\<close> block; their flag says that an exception is waiting
  to be raised again once the block is done.
\<close>

datatype pc =
    L435 | L436 | L440 | L441 | L442
  | L447 document
  | L448 document
  | L462 document chunker
  | L474 document chunker "ustr list"
  | L475 document chunker "ustr list"
  | L476 document chunker "ustr list"
  | L480 chunker "ustr list" "chunk list"
  | L481 chunker "ustr list" "chunk list"
  | L482 chunker "ustr list" "chunk list"
  | L598 dict
  | L599 dict
  | L600 dict
  | L601 dict
  | L602
  | L607 exn
  | L608 exn
  | L609 exn
  | L610
  | L614 bool
  | L615 bool dir
  | L618 bool dir
  | Returned
  | Raised

record task =
  pc :: pc
  file_path :: path
  arg_filename :: ustr
  arg_file_extension :: ustr
  arg_include_metadata :: bool
  arg_contextualize :: bool
  arg_max_tokens :: "int option"

text \<open>
  \<open>job_store\<close> is the module's dictionary. \<open>disk\<close> maps each existing workspace to its
  files. \<open>background\<close> holds the executions that \<open>add_task\<close> has scheduled.
  \<open>uuid_count\<close> and \<open>dir_count\<close> count the identifiers and directories handed out,
  \<open>clock\<close> is the time.
\<close>

record world =
  job_store :: "job_id \<rightharpoonup> job"
  disk :: "dir \<rightharpoonup> (ustr \<rightharpoonup> bytes)"
  background :: "job_id \<rightharpoonup> task"
  uuid_count :: nat
  dir_count :: nat
  clock :: nat
  calls :: "call list"

definition init :: world where
  "init = \<lparr>job_store = Map.empty, disk = Map.empty, background = Map.empty,
            uuid_count = 0, dir_count = 0, clock = 0, calls = []\<rparr>"

datatype response =
    HTTPException nat ustr
  | Unhandled
  | Json json
  | Markdown ustr ustr
  | Zip "(ustr \<times> ustr) list"

section \<open>Calls to the file system and the libraries\<close>

definition called :: "call \<Rightarrow> world \<Rightarrow> world" where
  "called c w = w\<lparr>calls := calls w @ [c]\<rparr>"

text \<open>\<open>tempfile.mkdtemp()\<close>, also inside \<open>TemporaryDirectory()\<close>; taken to succeed.\<close>

definition mkdtemp :: "world \<Rightarrow> dir \<times> world" where
  "mkdtemp w =
    (dir_count w,
     called (Mkdtemp (dir_count w))
       (w\<lparr>disk := (disk w)(dir_count w \<mapsto> Map.empty), dir_count := Suc (dir_count w)\<rparr>))"

text \<open>
  \<open>open(path, "wb")\<close>, \<open>await file.read()\<close> and \<open>buffer.write(content)\<close>. The handlers
  write only into the directory they have just made.
\<close>

definition write_file :: "externals \<Rightarrow> dir \<Rightarrow> upload \<Rightarrow> world \<Rightarrow> world \<times> (exn + unit)" where
  "write_file ex d file w =
    (case write_error ex (filename file) (content file) of
       Some e \<Rightarrow> (called (Write d (filename file)) w, Inl e)
     | None \<Rightarrow>
         (called (Write d (filename file))
            (w\<lparr>disk := (disk w)(d \<mapsto>
                 (case disk w d of Some files \<Rightarrow> files | None \<Rightarrow> Map.empty)
                   (filename file \<mapsto> content file))\<rparr>),
          Inr ()))"

definition read_file :: "world \<Rightarrow> path \<Rightarrow> bytes option" where
  "read_file w p = (case disk w (fst p) of Some files \<Rightarrow> files (snd p) | None \<Rightarrow> None)"

text \<open>
  \<open>shutil.rmtree(d)\<close>, and the exit of \<open>with TemporaryDirectory()\<close>: the directory goes,
  or the call raises (the result is \<open>False\<close>) because the directory is not there or its
  removal fails.
\<close>

definition rmtree :: "externals \<Rightarrow> site \<Rightarrow> dir \<Rightarrow> world \<Rightarrow> world \<times> bool" where
  "rmtree ex s d w =
    (if disk w d \<noteq> None \<and> \<not> rmtree_fails ex (clock w) d
     then (called (Rmtree s d True) (w\<lparr>disk := (disk w)(d := None)\<rparr>), True)
     else (called (Rmtree s d False) w, False))"

definition do_convert :: "externals \<Rightarrow> path \<Rightarrow> world \<Rightarrow> world \<times> (exn + document)" where
  "do_convert ex p w = (called (Convert (fst p) (snd p)) w, convert ex (snd p) (read_file w p))"

definition do_select_chunker :: "externals \<Rightarrow> int option \<Rightarrow> world \<Rightarrow> world \<times> (exn + chunker)" where
  "do_select_chunker ex max_tokens w =
    (case max_tokens of
       Some m \<Rightarrow>
         if m \<noteq> 0 \<and> m \<noteq> MAX_TOKENS then (called (Make_tokenizer m) w, select_chunker ex max_tokens)
         else (w, select_chunker ex max_tokens)
     | None \<Rightarrow> (w, select_chunker ex max_tokens))"

definition do_excel_sheets :: "externals \<Rightarrow> ustr \<Rightarrow> path \<Rightarrow> world \<Rightarrow> world \<times> ustr list" where
  "do_excel_sheets ex file_extension p w =
    (if file_extension = ascii ''.xlsx''
     then (called (Sheetnames (fst p) (snd p)) w,
           load_excel_sheets ex file_extension (snd p) (read_file w p))
     else (w, []))"

definition do_chunk :: "chunker \<Rightarrow> document \<Rightarrow> world \<Rightarrow> world \<times> (exn + chunk list)" where
  "do_chunk active_chunker doc w = (called Chunk w, chunk_doc active_chunker doc)"

text \<open>Sequencing in a handler: the state is threaded, the first exception ends it.\<close>

definition bind_w ::
  "world \<times> (exn + 'a) \<Rightarrow> (world \<Rightarrow> 'a \<Rightarrow> world \<times> (exn + 'b)) \<Rightarrow> world \<times> (exn + 'b)" where
  "bind_w m f = (case m of (w, Inl e) \<Rightarrow> (w, Inl e) | (w, Inr x) \<Rightarrow> f w x)"

text \<open>
  The end of a \<open>with tempfile.TemporaryDirectory()\<close> block that was about to answer
  \<open>r\<close>: when the removal raises, that exception leaves the handler instead.
\<close>

definition leave_tempdir :: "externals \<Rightarrow> dir \<Rightarrow> world \<Rightarrow> response \<Rightarrow> world \<times> response" where
  "leave_tempdir ex d w r =
    (case rmtree ex With_exit d w of
       (w, True) \<Rightarrow> (w, r)
     | (w, False) \<Rightarrow> (w, Unhandled))"

section \<open>The synchronous handlers\<close>

text \<open>The local variable \<open>temp_dir\<close> of the handlers is written \<open>tmp\<close>.\<close>

subsection \<open>\<open>POST /convert\<close>\<close>

text \<open>Lines 181 to 188: one part per chunk, \<open>i\<close> being the index of the first of the list.\<close>

fun markdown_parts :: "chunker \<Rightarrow> bool \<Rightarrow> nat \<Rightarrow> chunk list \<Rightarrow> exn + ustr list" where
  "markdown_parts ch ctx i [] = Inr []"
| "markdown_parts ch ctx i (c # cs) =
    bind_exn (if ctx then contextualize ch c else Inr (chunk_text c)) (\<lambda>t.
    bind_exn (markdown_parts ch ctx (Suc i) cs) (\<lambda>parts.
      Inr (markdown_part i t # parts)))"

text \<open>Lines 174 to 193 and 837 to 848: the Markdown of a converted document.\<close>

definition final_content :: "externals \<Rightarrow> bool \<Rightarrow> bool \<Rightarrow> document \<Rightarrow> world \<Rightarrow> world \<times> (exn + ustr)" where
  "final_content ex use_chunking ctx doc w =
    (if use_chunking then
       bind_w (do_chunk (chunker ex) doc w) (\<lambda>w chunks.
         (w, bind_exn (markdown_parts (chunker ex) ctx 0 chunks) (\<lambda>parts. Inr (join [10] parts))))
     else (called Export_markdown w, export_to_markdown doc))"

text \<open>
  Lines 200 to 206: the answer, built inside the \<open>try\<close> block. \<open>Response\<close> encodes
  the value of each header as Latin-1, so a name with a character beyond 255 raises there.
  The second argument of \<open>Markdown\<close> is the value of \<open>Content-Disposition\<close>.
\<close>

definition markdown_response :: "externals \<Rightarrow> ustr \<Rightarrow> ustr \<Rightarrow> exn + response" where
  "markdown_response ex text output_filename =
    (let disposition = ascii ''attachment; filename='' @ output_filename @ ascii ''.md''
     in if list_all (\<lambda>c. c < 256) disposition then Inr (Markdown text disposition)
        else Inl (encode_error ex disposition))"

text \<open>Lines 159 to 206: the \<open>try\<close> block.\<close>

definition convert_file_try ::
  "externals \<Rightarrow> upload \<Rightarrow> ustr option \<Rightarrow> bool \<Rightarrow> bool \<Rightarrow> dir \<Rightarrow> world \<Rightarrow> world \<times> (exn + response)" where
  "convert_file_try ex file output_filename use_chunking ctx tmp w =
    bind_w (write_file ex tmp file w) (\<lambda>w _.
    bind_w (do_convert ex (tmp, filename file) w) (\<lambda>w doc.
    bind_w (final_content ex use_chunking ctx doc w) (\<lambda>w text.
      (w, markdown_response ex text
            (case output_filename of
               Some n \<Rightarrow> if n = [] then stem ex (filename file) else n
             | None \<Rightarrow> stem ex (filename file))))))"

text \<open>Lines 127 to 210. The parameter \<open>include_metadata\<close> is not read.\<close>

definition convert_file ::
  "externals \<Rightarrow> upload \<Rightarrow> ustr option \<Rightarrow> bool \<Rightarrow> bool \<Rightarrow> bool \<Rightarrow> world \<Rightarrow> world \<times> response" where
  "convert_file ex file output_filename include_metadata use_chunking ctx w =
    (let file_extension = suffix_lower ex (filename file) in
     if \<not> supported file_extension then (w, HTTPException 400 unsupported_detail)
     else
       (case mkdtemp w of (tmp, w) \<Rightarrow>
         (case convert_file_try ex file output_filename use_chunking ctx tmp w of
            (w, Inr r) \<Rightarrow> leave_tempdir ex tmp w r
          | (w, Inl e) \<Rightarrow> leave_tempdir ex tmp w (HTTPException 500 (convert_failed_detail e)))))"

subsection \<open>\<open>POST /convert-chunked\<close>\<close>

text \<open>Lines 234 to 411: the \<open>try\<close> block, which returns \<open>response_data\<close>.\<close>

definition convert_file_chunked_try ::
  "externals \<Rightarrow> upload \<Rightarrow> bool \<Rightarrow> bool \<Rightarrow> int option \<Rightarrow> ustr \<Rightarrow> dir \<Rightarrow> world \<Rightarrow> world \<times> (exn + dict)" where
  "convert_file_chunked_try ex file include_metadata ctx max_tokens file_extension tmp w =
    bind_w (write_file ex tmp file w) (\<lambda>w _.
    bind_w (do_select_chunker ex max_tokens w) (\<lambda>w active_chunker.
    bind_w (do_convert ex (tmp, filename file) w) (\<lambda>w doc.
    (case do_excel_sheets ex file_extension (tmp, filename file) w of (w, excel_sheets) \<Rightarrow>
    bind_w (do_chunk active_chunker doc w) (\<lambda>w chunks.
    bind_w (w, chunk_data_sync ex active_chunker ctx file_extension excel_sheets 0 chunks)
      (\<lambda>w chunk_data.
        (let response_data = payload (filename file) file_extension max_tokens ctx chunks chunk_data
         in (w, Inr (if include_metadata
                     then dict_set response_data ''file_metadata''
                            (file_metadata ex (filename file) (content file) file_extension doc)
                     else response_data)))))))))"

text \<open>Lines 213 to 419. A failure inside the block is a normal answer with \<open>success\<close> false.\<close>

definition convert_file_chunked ::
  "externals \<Rightarrow> upload \<Rightarrow> bool \<Rightarrow> bool \<Rightarrow> int option \<Rightarrow> world \<Rightarrow> world \<times> response" where
  "convert_file_chunked ex file include_metadata ctx max_tokens w =
    (let file_extension = suffix_lower ex (filename file) in
     if \<not> supported file_extension then (w, HTTPException 400 unsupported_detail)
     else
       (case mkdtemp w of (tmp, w) \<Rightarrow>
         (case convert_file_chunked_try ex file include_metadata ctx max_tokens file_extension tmp w of
            (w, Inr response_data) \<Rightarrow> leave_tempdir ex tmp w (Json (JObj response_data))
          | (w, Inl e) \<Rightarrow>
              leave_tempdir ex tmp w
                (Json (JObj [(''success'', JBool False),
                             (''error'', JStr e),
                             (''filename'', JStr (filename file))])))))"

subsection \<open>\<open>POST /convert-multiple\<close>\<close>

datatype output_format = Zip_format | Json_format

text \<open>The loop state: \<open>results\<close> and \<open>converted_files\<close>, with the state of the server.\<close>

type_synonym batch = "world \<times> json list \<times> (ustr \<times> ustr) list"

text \<open>Lines 865 to 869: the entry of a file whose conversion raised.\<close>

definition failed_entry :: "upload \<Rightarrow> exn \<Rightarrow> json" where
  "failed_entry file e =
    JObj [(''filename'', JStr (filename file)), (''success'', JBool False), (''error'', JStr e)]"

text \<open>
  Lines 814 to 870: the body of the loop for one file. \<open>converted_files\<close> gets its entry
  before \<open>results\<close> does, and the entry of \<open>results\<close> chunks the document a second time
  when \<open>use_chunking\<close> is set.
\<close>

definition multiple_file :: "externals \<Rightarrow> bool \<Rightarrow> bool \<Rightarrow> dir \<Rightarrow> batch \<Rightarrow> upload \<Rightarrow> batch" where
  "multiple_file ex use_chunking ctx tmp acc file =
    (case acc of (w, results, converted_files) \<Rightarrow>
      (let file_extension = suffix_lower ex (filename file) in
       if \<not> supported file_extension then
         (w, results @ [failed_entry file unsupported_short], converted_files)
       else
         (case bind_w (write_file ex tmp file w) (\<lambda>w _.
                 bind_w (do_convert ex (tmp, filename file) w) (\<lambda>w doc.
                 bind_w (final_content ex use_chunking ctx doc w) (\<lambda>w text. (w, Inr (doc, text))))) of
            (w, Inl e) \<Rightarrow> (w, results @ [failed_entry file e], converted_files)
          | (w, Inr (doc, text)) \<Rightarrow>
              (let base_name = stem ex (filename file);
                   converted_files = dict_set converted_files (base_name @ ascii ''.md'') text
               in case (if use_chunking
                        then bind_w (do_chunk (chunker ex) doc w) (\<lambda>w chunks. (w, Inr (length chunks)))
                        else (w, Inr 1)) of
                    (w, Inl e) \<Rightarrow> (w, results @ [failed_entry file e], converted_files)
                  | (w, Inr chunks_count) \<Rightarrow>
                      (w,
                       results @
                         [JObj [(''filename'', JStr (filename file)),
                                (''success'', JBool True),
                                (''output_filename'', JStr (base_name @ ascii ''.md'')),
                                (''content_length'', JInt (int (length text))),
                                (''chunks_count'', JInt (int chunks_count))]],
                       converted_files)))))"

text \<open>Lines 873 to 901: the answer, from what the loop has left.\<close>

definition multiple_response ::
  "upload list \<Rightarrow> output_format \<Rightarrow> bool \<Rightarrow> bool \<Rightarrow> json list \<Rightarrow> (ustr \<times> ustr) list \<Rightarrow> response" where
  "multiple_response files fmt use_chunking ctx results converted_files =
    (if fmt = Json_format then
       Json (JObj [(''total_files'', JInt (int (length files))),
                   (''successful_conversions'', JInt (int (length converted_files))),
                   (''chunking_applied'', JBool use_chunking),
                   (''contextualize_applied'', JBool ctx),
                   (''results'', JList results),
                   (''converted_content'', JDict (map (\<lambda>(n, c). (n, JStr c)) converted_files))])
     else if converted_files \<noteq> [] then Zip converted_files
     else HTTPException 400 none_convertible_detail)"

text \<open>Lines 793 to 901.\<close>

definition convert_multiple_files ::
  "externals \<Rightarrow> upload list \<Rightarrow> output_format \<Rightarrow> bool \<Rightarrow> bool \<Rightarrow> world \<Rightarrow> world \<times> response" where
  "convert_multiple_files ex files fmt use_chunking ctx w =
    (if length files > 10 then (w, HTTPException 400 too_many_detail)
     else
       (case mkdtemp w of (tmp, w) \<Rightarrow>
         (case foldl (multiple_file ex use_chunking ctx tmp) (w, [], []) files of
            (w, results, converted_files) \<Rightarrow>
              leave_tempdir ex tmp w
                (multiple_response files fmt use_chunking ctx results converted_files))))"

section \<open>The asynchronous job\<close>

subsection \<open>\<open>POST /convert-chunked-async\<close>\<close>

text \<open>
  Lines 624 to 702. The identifier and the directory are drawn before the \<open>try\<close>; a
  failure to store the upload removes the directory again and answers 500, and when that
  removal raises too, its exception leaves the handler.
\<close>

definition convert_file_chunked_async ::
  "externals \<Rightarrow> upload \<Rightarrow> bool \<Rightarrow> bool \<Rightarrow> int option \<Rightarrow> world \<Rightarrow> world \<times> response" where
  "convert_file_chunked_async ex file include_metadata ctx max_tokens w =
    (let file_extension = suffix_lower ex (filename file) in
     if \<not> supported file_extension then (w, HTTPException 400 unsupported_detail)
     else
       (let j = uuid_count w;
            w = w\<lparr>uuid_count := Suc (uuid_count w)\<rparr>
        in case mkdtemp w of (tmp, w) \<Rightarrow>
          (case write_file ex tmp file w of
             (w, Inr _) \<Rightarrow>
               (let now = isoformat ex (clock w);
                    w = w\<lparr>job_store := (job_store w)(j \<mapsto>
                          \<lparr>job_id = j, status = Queued, progress = 0, message = msg_queued,
                           job_filename = filename file, file_size = length (content file),
                           created_at = now, temp_dir = tmp, result = None,
                           completed_at = None, error = None, failed_at = None\<rparr>)\<rparr>;
                    w = w\<lparr>background := (background w)(j \<mapsto>
                          \<lparr>pc = L435, file_path = (tmp, filename file),
                           arg_filename = filename file, arg_file_extension = file_extension,
                           arg_include_metadata = include_metadata, arg_contextualize = ctx,
                           arg_max_tokens = max_tokens\<rparr>)\<rparr>
                in (w, Json (JObj [(''job_id'', JStr (uuid_text ex j)),
                                   (''status'', JStr (ascii ''queued'')),
                                   (''message'', JStr msg_started),
                                   (''filename'', JStr (filename file)),
                                   (''file_size'', JInt (int (length (content file)))),
                                   (''created_at'', JStr now)])))
           | (w, Inl e) \<Rightarrow>
               (if disk w tmp \<noteq> None then
                  (case rmtree ex Line_700 tmp w of
                     (w, True) \<Rightarrow> (w, HTTPException 500 (create_failed_detail e))
                   | (w, False) \<Rightarrow> (w, Unhandled))
                else (w, HTTPException 500 (create_failed_detail e))))))"

subsection \<open>\<open>GET /job/{job_id}\<close>\<close>

definition opt_str :: "ustr option \<Rightarrow> json" where
  "opt_str a = (case a of Some s \<Rightarrow> JStr s | None \<Rightarrow> JNull)"

text \<open>
  Lines 705 to 743. The handler copies the record and reads the copy; the copy is taken
  in one go here. \<open>job.get(key)\<close> is \<open>null\<close> for a key that is not written yet.
\<close>

definition get_job_status :: "externals \<Rightarrow> job_id \<Rightarrow> world \<Rightarrow> response" where
  "get_job_status ex j w =
    (case job_store w j of
       None \<Rightarrow> HTTPException 404 (not_found_detail (uuid_text ex j))
     | Some job \<Rightarrow>
         (let response = [(''job_id'', JStr (uuid_text ex j)),
                          (''status'', JStr (status_text (status job))),
                          (''progress'', JInt (progress job)),
                          (''message'', JStr (message job)),
                          (''filename'', JStr (job_filename job)),
                          (''created_at'', JStr (created_at job))]
          in if status job = Completed then
               Json (JObj (dict_set (dict_set response ''completed_at'' (opt_str (completed_at job)))
                             ''result'' (case result job of Some r \<Rightarrow> r | None \<Rightarrow> JNull)))
             else if status job = Failed then
               Json (JObj (dict_set (dict_set response ''failed_at'' (opt_str (failed_at job)))
                             ''error'' (opt_str (error job))))
             else Json (JObj response)))"

subsection \<open>\<open>DELETE /job/{job_id}\<close>\<close>

text \<open>
  Lines 746 to 768. The directory is removed when it is there; when the removal raises,
  the exception leaves the handler and the record stays.
\<close>

definition delete_job :: "externals \<Rightarrow> job_id \<Rightarrow> world \<Rightarrow> world \<times> response" where
  "delete_job ex j w =
    (case job_store w j of
       None \<Rightarrow> (w, HTTPException 404 (not_found_detail (uuid_text ex j)))
     | Some job \<Rightarrow>
         (case (if disk w (temp_dir job) \<noteq> None then rmtree ex (Line_758 j) (temp_dir job) w
                else (w, True)) of
            (w, False) \<Rightarrow> (w, Unhandled)
          | (w, True) \<Rightarrow>
              (w\<lparr>job_store := (job_store w)(j := None)\<rparr>,
               Json (JObj [(''message'', JStr (deleted_message (uuid_text ex j))),
                           (''job_id'', JStr (uuid_text ex j))]))))"

subsection \<open>\<open>process_chunking_job\<close>, statement by statement\<close>

text \<open>\<open>str(e)\<close> for the \<open>KeyError\<close> of a missing record: the key in quotes.\<close>

definition key_error :: "externals \<Rightarrow> job_id \<Rightarrow> exn" where
  "key_error ex j = [39] @ uuid_text ex j @ [39]"

text \<open>
  \<open>job_store[job_id][key] = value\<close> inside the \<open>try\<close> block: without the record, the
  \<open>KeyError\<close> goes to the handler at line 605.
\<close>

definition assign :: "externals \<Rightarrow> job_id \<Rightarrow> (job \<Rightarrow> job) \<Rightarrow> pc \<Rightarrow> world \<Rightarrow> world \<times> pc" where
  "assign ex j f next_pc w =
    (case job_store w j of
       Some job \<Rightarrow> (w\<lparr>job_store := (job_store w)(j \<mapsto> f job)\<rparr>, next_pc)
     | None \<Rightarrow> (w, L607 (key_error ex j)))"

text \<open>
  The same inside the \<open>except\<close> block: the \<open>KeyError\<close> ends the handler, and the
  \<open>finally\<close> block runs with it waiting.
\<close>

definition assign_in_handler :: "job_id \<Rightarrow> (job \<Rightarrow> job) \<Rightarrow> pc \<Rightarrow> world \<Rightarrow> world \<times> pc" where
  "assign_in_handler j f next_pc w =
    (case job_store w j of
       Some job \<Rightarrow> (w\<lparr>job_store := (job_store w)(j \<mapsto> f job)\<rparr>, next_pc)
     | None \<Rightarrow> (w, L614 True))"

text \<open>Lines 578 to 595: \<open>result_data\<close>.\<close>

definition result_data :: "task \<Rightarrow> ustr list \<Rightarrow> chunk list \<Rightarrow> json list \<Rightarrow> dict" where
  "result_data t excel_sheets chunks chunk_data =
    (let r = payload (arg_filename t) (arg_file_extension t) (arg_max_tokens t)
               (arg_contextualize t) chunks chunk_data
     in if arg_file_extension t = ascii ''.xlsx'' \<and> excel_sheets \<noteq> [] then
          dict_set (dict_set r ''excel_sheets'' (JList (map JStr excel_sheets)))
            ''total_sheets'' (JInt (int (length excel_sheets)))
        else r)"

text \<open>
  One statement of the execution of job \<open>j\<close> with frame \<open>t\<close>: the new state and the
  next program point.
\<close>

fun exec :: "externals \<Rightarrow> job_id \<Rightarrow> task \<Rightarrow> pc \<Rightarrow> world \<Rightarrow> world \<times> pc" where
  "exec ex j t L435 w = assign ex j (\<lambda>r. r\<lparr>status := Processing\<rparr>) L436 w"
| "exec ex j t L436 w = assign ex j (\<lambda>r. r\<lparr>progress := 10\<rparr>) L440 w"
| "exec ex j t L440 w = assign ex j (\<lambda>r. r\<lparr>progress := 30\<rparr>) L441 w"
| "exec ex j t L441 w = assign ex j (\<lambda>r. r\<lparr>message := msg_converting\<rparr>) L442 w"
| "exec ex j t L442 w =
    (case do_convert ex (file_path t) w of
       (w, Inr doc) \<Rightarrow> (w, L447 doc)
     | (w, Inl e) \<Rightarrow> (w, L607 e))"
| "exec ex j t (L447 doc) w = assign ex j (\<lambda>r. r\<lparr>progress := 40\<rparr>) (L448 doc) w"
| "exec ex j t (L448 doc) w =
    (case do_select_chunker ex (arg_max_tokens t) w of
       (w, Inr active_chunker) \<Rightarrow> (w, L462 doc active_chunker)
     | (w, Inl e) \<Rightarrow> (w, L607 e))"
| "exec ex j t (L462 doc ac) w =
    (case do_excel_sheets ex (arg_file_extension t) (file_path t) w of
       (w, excel_sheets) \<Rightarrow> (w, L474 doc ac excel_sheets))"
| "exec ex j t (L474 doc ac sheets) w =
    assign ex j (\<lambda>r. r\<lparr>progress := 60\<rparr>) (L475 doc ac sheets) w"
| "exec ex j t (L475 doc ac sheets) w =
    assign ex j (\<lambda>r. r\<lparr>message := msg_chunking\<rparr>) (L476 doc ac sheets) w"
| "exec ex j t (L476 doc ac sheets) w =
    (case do_chunk ac doc w of
       (w, Inr chunks) \<Rightarrow> (w, L480 ac sheets chunks)
     | (w, Inl e) \<Rightarrow> (w, L607 e))"
| "exec ex j t (L480 ac sheets chunks) w =
    assign ex j (\<lambda>r. r\<lparr>progress := 80\<rparr>) (L481 ac sheets chunks) w"
| "exec ex j t (L481 ac sheets chunks) w =
    assign ex j (\<lambda>r. r\<lparr>message := msg_metadata\<rparr>) (L482 ac sheets chunks) w"
| "exec ex j t (L482 ac sheets chunks) w =
    (case chunk_data_async ex ac (arg_contextualize t) (arg_file_extension t) sheets 0 chunks of
       Inr chunk_data \<Rightarrow> (w, L598 (result_data t sheets chunks chunk_data))
     | Inl e \<Rightarrow> (w, L607 e))"
| "exec ex j t (L598 rd) w = assign ex j (\<lambda>r. r\<lparr>progress := 100\<rparr>) (L599 rd) w"
| "exec ex j t (L599 rd) w = assign ex j (\<lambda>r. r\<lparr>status := Completed\<rparr>) (L600 rd) w"
| "exec ex j t (L600 rd) w = assign ex j (\<lambda>r. r\<lparr>message := msg_done\<rparr>) (L601 rd) w"
| "exec ex j t (L601 rd) w = assign ex j (\<lambda>r. r\<lparr>result := Some (JObj rd)\<rparr>) L602 w"
| "exec ex j t L602 w =
    assign ex j (\<lambda>r. r\<lparr>completed_at := Some (isoformat ex (clock w))\<rparr>) (L614 False) w"
| "exec ex j t (L607 e) w = assign_in_handler j (\<lambda>r. r\<lparr>status := Failed\<rparr>) (L608 e) w"
| "exec ex j t (L608 e) w = assign_in_handler j (\<lambda>r. r\<lparr>progress := 0\<rparr>) (L609 e) w"
| "exec ex j t (L609 e) w = assign_in_handler j (\<lambda>r. r\<lparr>error := Some e\<rparr>) L610 w"
| "exec ex j t L610 w =
    assign_in_handler j (\<lambda>r. r\<lparr>failed_at := Some (isoformat ex (clock w))\<rparr>) (L614 False) w"
| "exec ex j t (L614 pending) w =
    (case job_store w j of
       Some job \<Rightarrow> (w, L615 pending (temp_dir job))
     | None \<Rightarrow> (w, Raised))"
| "exec ex j t (L615 pending d) w =
    (if disk w d \<noteq> None then (w, L618 pending d)
     else (w, if pending then Raised else Returned))"
| "exec ex j t (L618 pending d) w =
    (case rmtree ex (Line_618 j) d w of
       (w, _) \<Rightarrow> (w, if pending then Raised else Returned))"
| "exec ex j t Returned w = (w, Returned)"
| "exec ex j t Raised w = (w, Raised)"

text \<open>
  The background execution of job \<open>j\<close> runs its next statement. The function is a plain
  \<open>def\<close> handed to \<open>BackgroundTasks\<close>, so it runs beside the handlers; the
  handlers' events may come between any two of its statements.
\<close>

definition run_statement :: "externals \<Rightarrow> job_id \<Rightarrow> world \<Rightarrow> world" where
  "run_statement ex j w =
    (case background w j of
       None \<Rightarrow> w
     | Some t \<Rightarrow>
         (case exec ex j t (pc t) w of
            (w, p) \<Rightarrow> w\<lparr>background := (background w)(j \<mapsto> t\<lparr>pc := p\<rparr>)\<rparr>))"

section \<open>Runs of the server\<close>

datatype event =
    Post_convert upload "ustr option" bool bool bool
  | Post_convert_chunked upload bool bool "int option"
  | Post_convert_chunked_async upload bool bool "int option"
  | Post_convert_multiple "upload list" output_format bool bool
  | Get_job job_id
  | Delete_job job_id
  | Statement job_id
  | Tick

fun step :: "externals \<Rightarrow> world \<Rightarrow> event \<Rightarrow> world" where
  "step ex w (Post_convert file out_name im uc ctx) = fst (convert_file ex file out_name im uc ctx w)"
| "step ex w (Post_convert_chunked file im ctx mt) = fst (convert_file_chunked ex file im ctx mt w)"
| "step ex w (Post_convert_chunked_async file im ctx mt) =
     fst (convert_file_chunked_async ex file im ctx mt w)"
| "step ex w (Post_convert_multiple files fmt uc ctx) =
     fst (convert_multiple_files ex files fmt uc ctx w)"
| "step ex w (Get_job j) = w"
| "step ex w (Delete_job j) = fst (delete_job ex j w)"
| "step ex w (Statement j) = run_statement ex j w"
| "step ex w Tick = w\<lparr>clock := Suc (clock w)\<rparr>"

text \<open>The state after a list of events, from \<open>w\<close>.\<close>

definition run :: "externals \<Rightarrow> world \<Rightarrow> event list \<Rightarrow> world" where
  "run ex w es = foldl (step ex) w es"

section \<open>A sample environment\<close>

text \<open>
  Stand-ins for the libraries, used only to run the model on concrete requests: the
  converter keeps the bytes of the file as the body of the document, the chunker makes one
  chunk of that body, the module-level tokenizer counts characters, and a tokenizer built
  for \<open>max_tokens = m\<close> answers \<open>m\<close> for every text. File names have one dot.
\<close>

definition demo_chunker :: chunker where
  "demo_chunker =
     \<lparr>chunk_doc = (\<lambda>d. Inr [\<lparr>chunk_text = doc_body d, chunk_meta = None, chunk_dir = []\<rparr>]),
      contextualize = (\<lambda>c. Inr (chunk_text c))\<rparr>"

definition demo :: externals where
  "demo =
     \<lparr>tokenizer = \<lparr>count_tokens = Some (\<lambda>t. Inr (int (length t)))\<rparr>,
      chunker = demo_chunker,
      make_tokenizer = (\<lambda>m. Inr \<lparr>count_tokens = Some (\<lambda>t. Inr m)\<rparr>),
      make_chunker = (\<lambda>t. Inr demo_chunker),
      convert = (\<lambda>name content.
                   case content of
                     None \<Rightarrow> Inl (ascii ''no such file'')
                   | Some b \<Rightarrow> Inr \<lparr>export_to_markdown = Inr b, doc_pages = None,
                                   doc_main_text = None, doc_body = b\<rparr>),
      sheetnames = (\<lambda>name content. Inr [ascii ''Sheet1'']),
      suffix_lower = dropWhile (\<lambda>c. c \<noteq> 46),
      stem = takeWhile (\<lambda>c. c \<noteq> 46),
      guess_type = (\<lambda>name. None),
      write_error = (\<lambda>name b. None),
      rmtree_fails = (\<lambda>now d. False),
      uuid_text = str_nat,
      isoformat = str_nat,
      encode_error = (\<lambda>h. ascii ''latin-1 codec cannot encode'')\<rparr>"

definition a_txt :: upload where
  "a_txt = \<lparr>filename = ascii ''a.txt'', content = [104, 105]\<rparr>"

text \<open>One job, submitted and run to its end with nothing in between.\<close>

definition undisturbed :: "event list" where
  "undisturbed =
     [Post_convert_chunked_async a_txt False True None,
      Statement 0, Statement 0, Statement 0, Statement 0, Statement 0, Statement 0,
      Statement 0, Statement 0, Statement 0, Statement 0, Statement 0, Statement 0,
      Statement 0, Statement 0, Statement 0, Statement 0, Statement 0, Statement 0,
      Statement 0, Statement 0, Statement 0, Statement 0]"

definition b_exe :: upload where
  "b_exe = \<lparr>filename = ascii ''b.exe'', content = [77, 90]\<rparr>"

definition c_bin :: upload where
  "c_bin = \<lparr>filename = ascii ''c.bin'', content = [1, 2, 3]\<rparr>"

section \<open>Notions used in the statements\<close>

text \<open>
  What the loop of \<open>convert_multiple_files\<close> leaves in \<open>converted_files\<close> and in
  \<open>results\<close> for a request that passed the size check.
\<close>

definition converted ::
  "externals \<Rightarrow> upload list \<Rightarrow> bool \<Rightarrow> bool \<Rightarrow> world \<Rightarrow> (ustr \<times> ustr) list" where
  "converted ex files use_chunking ctx w =
    (case mkdtemp w of (tmp, w) \<Rightarrow>
      snd (snd (foldl (multiple_file ex use_chunking ctx tmp) (w, [], []) files)))"

definition batch_results ::
  "externals \<Rightarrow> upload list \<Rightarrow> bool \<Rightarrow> bool \<Rightarrow> world \<Rightarrow> json list" where
  "batch_results ex files use_chunking ctx w =
    (case mkdtemp w of (tmp, w) \<Rightarrow>
      fst (snd (foldl (multiple_file ex use_chunking ctx tmp) (w, [], []) files)))"

text \<open>The files of a request whose extension is supported.\<close>

definition supported_files :: "externals \<Rightarrow> upload list \<Rightarrow> upload list" where
  "supported_files ex files = filter (\<lambda>f. supported (suffix_lower ex (filename f))) files"

text \<open>The directory of a background execution: the one its file was stored in.\<close>

definition workspace :: "task \<Rightarrow> dir" where
  "workspace t = fst (file_path t)"

text \<open>The execution has left the function: by returning, or with an exception.\<close>

definition ended :: "pc \<Rightarrow> bool" where
  "ended p \<longleftrightarrow> p = Returned \<or> p = Raised"

text \<open>The places from which directory \<open>d\<close> was removed, in the order of the calls.\<close>

fun removal_of :: "dir \<Rightarrow> call \<Rightarrow> site list" where
  "removal_of d (Rmtree s d' ok) = (if d' = d \<and> ok then [s] else [])"
| "removal_of d c = []"

definition removals :: "call list \<Rightarrow> dir \<Rightarrow> site list" where
  "removals cs d = concat (map (removal_of d) cs)"

text \<open>
  What the local variables of an execution are known to be: the active chunker is the one
  selected for \<open>max_tokens\<close>, the chunks are its chunks of some document, and
  \<open>result_data\<close> was assembled from the records of those chunks.
\<close>

definition selected :: "externals \<Rightarrow> task \<Rightarrow> chunker \<Rightarrow> bool" where
  "selected ex t ac \<longleftrightarrow> select_chunker ex (arg_max_tokens t) = Inr ac"

definition made :: "externals \<Rightarrow> task \<Rightarrow> dict \<Rightarrow> bool" where
  "made ex t rd \<longleftrightarrow>
    (\<exists>ac doc sheets chunks chunk_data.
       selected ex t ac \<and> chunk_doc ac doc = Inr chunks \<and>
       chunk_data_async ex ac (arg_contextualize t) (arg_file_extension t) sheets 0 chunks =
         Inr chunk_data \<and>
       rd = result_data t sheets chunks chunk_data)"

fun pc_ok :: "externals \<Rightarrow> task \<Rightarrow> pc \<Rightarrow> bool" where
  "pc_ok ex t (L462 doc ac) = selected ex t ac"
| "pc_ok ex t (L474 doc ac sheets) = selected ex t ac"
| "pc_ok ex t (L475 doc ac sheets) = selected ex t ac"
| "pc_ok ex t (L476 doc ac sheets) = selected ex t ac"
| "pc_ok ex t (L480 ac sheets chunks) = (selected ex t ac \<and> (\<exists>doc. chunk_doc ac doc = Inr chunks))"
| "pc_ok ex t (L481 ac sheets chunks) = (selected ex t ac \<and> (\<exists>doc. chunk_doc ac doc = Inr chunks))"
| "pc_ok ex t (L482 ac sheets chunks) = (selected ex t ac \<and> (\<exists>doc. chunk_doc ac doc = Inr chunks))"
| "pc_ok ex t (L598 rd) = made ex t rd"
| "pc_ok ex t (L599 rd) = made ex t rd"
| "pc_ok ex t (L600 rd) = made ex t rd"
| "pc_ok ex t (L601 rd) = made ex t rd"
| "pc_ok ex t (L615 pending d) = (d = workspace t \<and> \<not> pending)"
| "pc_ok ex t (L618 pending d) = (d = workspace t \<and> \<not> pending)"
| "pc_ok ex t p = True"

text \<open>The fields that only the end of an execution writes are still unwritten.\<close>

definition untouched :: "job \<Rightarrow> bool" where
  "untouched r \<longleftrightarrow>
     result r = None \<and> error r = None \<and> completed_at r = None \<and> failed_at r = None"

definition running :: "job \<Rightarrow> int \<Rightarrow> bool" where
  "running r n \<longleftrightarrow> status r = Processing \<and> progress r = n \<and> untouched r"

text \<open>The record as the \<open>try\<close> and \<open>except\<close> blocks leave it.\<close>

definition settled :: "externals \<Rightarrow> task \<Rightarrow> job \<Rightarrow> bool" where
  "settled ex t r \<longleftrightarrow>
     (status r = Completed \<and> progress r = 100 \<and> message r = msg_done \<and>
      (\<exists>rd. result r = Some (JObj rd) \<and> made ex t rd) \<and>
      error r = None \<and> completed_at r \<noteq> None \<and> failed_at r = None) \<or>
     (status r = Failed \<and> progress r = 0 \<and> result r = None \<and> error r \<noteq> None \<and>
      completed_at r = None \<and> failed_at r \<noteq> None)"

text \<open>What the record of a job holds when its execution stands at a program point.\<close>

fun job_at :: "externals \<Rightarrow> task \<Rightarrow> pc \<Rightarrow> job \<Rightarrow> bool" where
  "job_at ex t L435 r = (status r = Queued \<and> progress r = 0 \<and> untouched r)"
| "job_at ex t L436 r = running r 0"
| "job_at ex t L440 r = running r 10"
| "job_at ex t L441 r = running r 30"
| "job_at ex t L442 r = running r 30"
| "job_at ex t (L447 doc) r = running r 30"
| "job_at ex t (L448 doc) r = running r 40"
| "job_at ex t (L462 doc ac) r = running r 40"
| "job_at ex t (L474 doc ac sheets) r = running r 40"
| "job_at ex t (L475 doc ac sheets) r = running r 60"
| "job_at ex t (L476 doc ac sheets) r = running r 60"
| "job_at ex t (L480 ac sheets chunks) r = running r 60"
| "job_at ex t (L481 ac sheets chunks) r = running r 80"
| "job_at ex t (L482 ac sheets chunks) r = running r 80"
| "job_at ex t (L598 rd) r = running r 80"
| "job_at ex t (L599 rd) r = running r 100"
| "job_at ex t (L600 rd) r = (status r = Completed \<and> progress r = 100 \<and> untouched r)"
| "job_at ex t (L601 rd) r =
     (status r = Completed \<and> progress r = 100 \<and> message r = msg_done \<and> untouched r)"
| "job_at ex t L602 r =
     (status r = Completed \<and> progress r = 100 \<and> message r = msg_done \<and>
      (\<exists>rd. result r = Some (JObj rd) \<and> made ex t rd) \<and>
      error r = None \<and> completed_at r = None \<and> failed_at r = None)"
| "job_at ex t (L607 e) r =
     (status r = Processing \<and> progress r \<in> {30, 40, 60, 80} \<and> untouched r)"
| "job_at ex t (L608 e) r =
     (status r = Failed \<and> progress r \<in> {30, 40, 60, 80} \<and> untouched r)"
| "job_at ex t (L609 e) r = (status r = Failed \<and> progress r = 0 \<and> untouched r)"
| "job_at ex t L610 r =
     (status r = Failed \<and> progress r = 0 \<and> result r = None \<and> error r \<noteq> None \<and>
      completed_at r = None \<and> failed_at r = None)"
| "job_at ex t (L614 pending) r = (\<not> pending \<and> settled ex t r)"
| "job_at ex t (L615 pending d) r = (\<not> pending \<and> settled ex t r)"
| "job_at ex t (L618 pending d) r = (\<not> pending \<and> settled ex t r)"
| "job_at ex t Returned r = settled ex t r"
| "job_at ex t Raised r = False"

text \<open>
  The workspace of job \<open>j\<close> against the disk and the removals so far, for an execution at
  \<open>p\<close>: on disk and never removed while the record is there and the execution has not
  returned; afterwards removed once, by the execution or by \<open>DELETE\<close>, or still on disk
  because its removal failed. \<open>present\<close> says that the record is in the store, \<open>on_disk\<close>
  that the directory \<open>d\<close> exists, \<open>rs\<close> lists the removals of \<open>d\<close>.
\<close>

definition ws_state :: "externals \<Rightarrow> job_id \<Rightarrow> dir \<Rightarrow> pc \<Rightarrow> bool \<Rightarrow> bool \<Rightarrow> site list \<Rightarrow> bool" where
  "ws_state ex j d p present on_disk rs \<longleftrightarrow>
    (present \<and> p \<noteq> Returned \<longrightarrow> on_disk \<and> rs = []) \<and>
    (present \<and> p = Returned \<longrightarrow>
       (\<not> on_disk \<and> rs = [Line_618 j]) \<or>
       (on_disk \<and> rs = [] \<and> (\<exists>now. rmtree_fails ex now d))) \<and>
    (\<not> present \<longrightarrow>
       \<not> on_disk \<and> (rs = [Line_758 j] \<or> (p = Returned \<and> rs = [Line_618 j])))"

definition ws_ok :: "externals \<Rightarrow> world \<Rightarrow> job_id \<Rightarrow> task \<Rightarrow> bool" where
  "ws_ok ex w j t \<longleftrightarrow>
     ws_state ex j (workspace t) (pc t) (job_store w j \<noteq> None)
       (disk w (workspace t) \<noteq> None) (removals (calls w) (workspace t))"

text \<open>Directories: numbered below the count, not removed while on disk, removed at most once.\<close>

definition dirs_ok :: "world \<Rightarrow> bool" where
  "dirs_ok w \<longleftrightarrow>
    (\<forall>d. (disk w d \<noteq> None \<longrightarrow> d < dir_count w \<and> removals (calls w) d = []) \<and>
         (dir_count w \<le> d \<longrightarrow> removals (calls w) d = []) \<and>
         length (removals (calls w) d) \<le> 1)"

text \<open>The invariant of the server.\<close>

definition inv :: "externals \<Rightarrow> world \<Rightarrow> bool" where
  "inv ex w \<longleftrightarrow>
    (\<forall>j. uuid_count w \<le> j \<longrightarrow> background w j = None) \<and>
    (\<forall>j r. job_store w j = Some r \<longrightarrow>
       (\<exists>t. background w j = Some t \<and> job_at ex t (pc t) r \<and> temp_dir r = workspace t)) \<and>
    (\<forall>j t. background w j = Some t \<longrightarrow>
       workspace t < dir_count w \<and> pc_ok ex t (pc t) \<and> ws_ok ex w j t) \<and>
    (\<forall>j j' t t'. background w j = Some t \<and> background w j' = Some t' \<and>
       workspace t = workspace t' \<longrightarrow> j = j') \<and>
    dirs_ok w"

text \<open>What the body of a handler does inside its directory: files and calls, no removal.\<close>

definition inside :: "dir \<Rightarrow> world \<Rightarrow> world \<Rightarrow> bool" where
  "inside tmp w w' \<longleftrightarrow>
     job_store w' = job_store w \<and> background w' = background w \<and>
     uuid_count w' = uuid_count w \<and> dir_count w' = dir_count w \<and> clock w' = clock w \<and>
     (\<forall>d. d \<noteq> tmp \<longrightarrow> disk w' d = disk w d) \<and>
     (disk w tmp \<noteq> None \<longrightarrow> disk w' tmp \<noteq> None) \<and>
     (\<forall>d. removals (calls w') d = removals (calls w) d)"

section \<open>Evaluation\<close>

lemmas eval_defs =
  run_def supported_def SUPPORTED_EXTENSIONS_def ascii_def demo_def a_txt_def demo_chunker_def
  convert_file_chunked_async_def Let_def mkdtemp_def called_def write_file_def init_def
  run_statement_def assign_def assign_in_handler_def do_convert_def read_file_def
  do_select_chunker_def select_chunker_def do_excel_sheets_def load_excel_sheets_def
  do_chunk_def rmtree_def result_data_def payload_def chunk_info_async_def chunk_base_def
  add_context_def add_metadata_def page_fields_def extract_provenance_def bind_exn_def

section \<open>Deleting a job whose workspace is already gone\<close>

text \<open>
  C7. \<open>DELETE /job/{job_id}\<close> for a record whose workspace is no longer on disk (the
  background execution has ended and removed it) does not raise: it removes the record and
  answers with the confirmation, and touches nothing else.
\<close>

theorem delete_job_workspace_absent:
  assumes "job_store w j = Some r" and "disk w (temp_dir r) = None"
  shows "delete_job ex j w =
           (w\<lparr>job_store := (job_store w)(j := None)\<rparr>,
            Json (JObj [(''message'', JStr (deleted_message (uuid_text ex j))),
                        (''job_id'', JStr (uuid_text ex j))]))"
  using assms by (simp add: delete_job_def)

theorem delete_job_workspace_absent_witness:
  "map_option pc (background (run demo init undisturbed) 0) = Some Returned \<and>
   map_option temp_dir (job_store (run demo init undisturbed) 0) = Some 0 \<and>
   disk (run demo init undisturbed) 0 = None \<and>
   snd (delete_job demo 0 (run demo init undisturbed)) =
     Json (JObj [(''message'', JStr (deleted_message (uuid_text demo 0))),
                 (''job_id'', JStr (uuid_text demo 0))]) \<and>
   job_store (fst (delete_job demo 0 (run demo init undisturbed))) 0 = None"
proof -
  have p: "map_option pc (background (run demo init undisturbed) 0) = Some Returned"
    by (simp add: eval_defs undisturbed_def)
  have d: "disk (run demo init undisturbed) 0 = None"
    by (simp add: eval_defs undisturbed_def)
  have t: "map_option temp_dir (job_store (run demo init undisturbed) 0) = Some 0"
    by (simp add: eval_defs undisturbed_def)
  then obtain r where r: "job_store (run demo init undisturbed) 0 = Some r" and "temp_dir r = 0"
    by auto
  with d have "disk (run demo init undisturbed) (temp_dir r) = None"
    by simp
  from delete_job_workspace_absent [OF r this, of demo] p d t show ?thesis
    by simp
qed

section \<open>Uploads with an unsupported extension\<close>

lemma a_txt_supported: "supported (suffix_lower demo (filename a_txt))"
  by (simp add: supported_def SUPPORTED_EXTENSIONS_def ascii_def demo_def a_txt_def)

lemma b_exe_unsupported: "\<not> supported (suffix_lower demo (filename b_exe))"
  by (simp add: supported_def SUPPORTED_EXTENSIONS_def ascii_def demo_def b_exe_def)

lemma c_bin_unsupported: "\<not> supported (suffix_lower demo (filename c_bin))"
  by (simp add: supported_def SUPPORTED_EXTENSIONS_def ascii_def demo_def c_bin_def)

lemma multiple_file_keeps:
  assumes "multiple_file ex uc ctx tmp (w, rs, cf) file = (w', rs', cf')"
  shows "clock w' = clock w \<and> (disk w tmp \<noteq> None \<longrightarrow> disk w' tmp \<noteq> None)"
  using assms
  by (auto simp: multiple_file_def bind_w_def write_file_def do_convert_def final_content_def
      do_chunk_def called_def Let_def split: if_splits prod.splits sum.splits option.splits)

lemma multiple_loop_keeps:
  assumes "foldl (multiple_file ex uc ctx tmp) (w, rs, cf) files = (w', rs', cf')"
  shows "clock w' = clock w \<and> (disk w tmp \<noteq> None \<longrightarrow> disk w' tmp \<noteq> None)"
  using assms
proof (induction files arbitrary: w rs cf)
  case Nil
  then show ?case by simp
next
  case (Cons f files)
  obtain w1 rs1 cf1 where one: "multiple_file ex uc ctx tmp (w, rs, cf) f = (w1, rs1, cf1)"
    by (cases "multiple_file ex uc ctx tmp (w, rs, cf) f") auto
  with Cons.prems have "foldl (multiple_file ex uc ctx tmp) (w1, rs1, cf1) files = (w', rs', cf')"
    by simp
  from Cons.IH [OF this] multiple_file_keeps [OF one] show ?case
    by simp
qed

lemma multiple_file_results:
  "fst (multiple_file ex uc ctx tmp (w, rs, cf) f) = fst (multiple_file ex uc ctx tmp (w, rs', cf) f) \<and>
   snd (snd (multiple_file ex uc ctx tmp (w, rs, cf) f)) =
     snd (snd (multiple_file ex uc ctx tmp (w, rs', cf) f))"
  by (auto simp: multiple_file_def Let_def split: prod.splits sum.splits)

lemma multiple_file_calls:
  assumes "multiple_file ex uc ctx tmp (w, rs, cf) f = (w', rs', cf')"
  shows "\<exists>more. calls w' = calls w @ more"
  using assms
  by (auto simp: multiple_file_def bind_w_def write_file_def do_convert_def final_content_def
      do_chunk_def called_def Let_def split: if_splits prod.splits sum.splits option.splits)

lemma multiple_loop_calls:
  assumes "foldl (multiple_file ex uc ctx tmp) (w, rs, cf) files = (w', rs', cf')"
  shows "\<exists>more. calls w' = calls w @ more"
  using assms
proof (induction files arbitrary: w rs cf)
  case Nil
  then show ?case by simp
next
  case (Cons f files)
  obtain w1 rs1 cf1 where one: "multiple_file ex uc ctx tmp (w, rs, cf) f = (w1, rs1, cf1)"
    by (cases "multiple_file ex uc ctx tmp (w, rs, cf) f") auto
  with Cons.prems have "foldl (multiple_file ex uc ctx tmp) (w1, rs1, cf1) files = (w', rs', cf')"
    by simp
  from Cons.IH [OF this] multiple_file_calls [OF one] show ?case
    by auto
qed

text \<open>The loop over all files leaves the state and the converted files of the loop over
  the supported ones: an unsupported file only adds an entry to \<open>results\<close>.\<close>

lemma multiple_loop_supported:
  "fst (foldl (multiple_file ex uc ctx tmp) (w, rs, cf) files) =
     fst (foldl (multiple_file ex uc ctx tmp) (w, rs', cf) (supported_files ex files)) \<and>
   snd (snd (foldl (multiple_file ex uc ctx tmp) (w, rs, cf) files)) =
     snd (snd (foldl (multiple_file ex uc ctx tmp) (w, rs', cf) (supported_files ex files)))"
proof (induction files arbitrary: w rs rs' cf)
  case Nil
  show ?case by (simp add: supported_files_def)
next
  case (Cons f files)
  show ?case
  proof (cases "supported (suffix_lower ex (filename f))")
    case False
    then have "multiple_file ex uc ctx tmp (w, rs, cf) f = (w, rs @ [failed_entry f unsupported_short], cf)"
      by (simp add: multiple_file_def)
    with False Cons.IH [of w "rs @ [failed_entry f unsupported_short]" cf rs'] show ?thesis
      by (simp add: supported_files_def)
  next
    case True
    obtain w1 rs1 cf1 where one: "multiple_file ex uc ctx tmp (w, rs, cf) f = (w1, rs1, cf1)"
      by (cases "multiple_file ex uc ctx tmp (w, rs, cf) f") auto
    obtain w2 rs2 cf2 where two: "multiple_file ex uc ctx tmp (w, rs', cf) f = (w2, rs2, cf2)"
      by (cases "multiple_file ex uc ctx tmp (w, rs', cf) f") auto
    from multiple_file_results [of ex uc ctx tmp w rs cf f rs'] one two
    have "w2 = w1" "cf2 = cf1" by auto
    with True one two Cons.IH [of w1 rs1 cf1 rs2] show ?thesis
      by (simp add: supported_files_def)
  qed
qed

lemma multiple_loop_unsupported:
  assumes "\<forall>f \<in> set files. \<not> supported (suffix_lower ex (filename f))"
  shows "foldl (multiple_file ex uc ctx tmp) (w, rs, cf) files =
           (w, rs @ map (\<lambda>f. failed_entry f unsupported_short) files, cf)"
  using assms
  by (induction files arbitrary: rs) (simp_all add: multiple_file_def)

text \<open>The answer of \<open>/convert-multiple\<close> to a request that passed the size check.\<close>

lemma convert_multiple_files_answer:
  assumes "length files \<le> 10"
  shows "snd (convert_multiple_files ex files fmt uc ctx w) =
           (if rmtree_fails ex (clock w) (dir_count w) then Unhandled
            else multiple_response files fmt uc ctx (batch_results ex files uc ctx w)
                   (converted ex files uc ctx w)) \<and>
         (\<exists>more. calls (fst (convert_multiple_files ex files fmt uc ctx w)) =
                   calls w @ Mkdtemp (dir_count w) # more)"
proof -
  obtain tmp w0 where m: "mkdtemp w = (tmp, w0)"
    by (cases "mkdtemp w") auto
  then have tmp: "tmp = dir_count w" and w0: "clock w0 = clock w" "disk w0 tmp \<noteq> None"
    "calls w0 = calls w @ [Mkdtemp (dir_count w)]"
    by (auto simp: mkdtemp_def called_def)
  obtain w1 rs cf where l: "foldl (multiple_file ex uc ctx tmp) (w0, [], []) files = (w1, rs, cf)"
    by (cases "foldl (multiple_file ex uc ctx tmp) (w0, [], []) files") auto
  from multiple_loop_keeps [OF l] w0 have w1: "clock w1 = clock w" "disk w1 tmp \<noteq> None"
    by auto
  from multiple_loop_calls [OF l] w0 obtain more where c1: "calls w1 = calls w @ Mkdtemp (dir_count w) # more"
    by auto
  from m l have cf: "converted ex files uc ctx w = cf" and rs: "batch_results ex files uc ctx w = rs"
    by (simp_all add: converted_def batch_results_def)
  from assms m l cf rs w1 tmp c1 show ?thesis
    by (auto simp: convert_multiple_files_def leave_tempdir_def rmtree_def called_def)
qed

lemma convert_multiple_files_supported:
  assumes "length files \<le> 10"
  shows "fst (convert_multiple_files ex files fmt uc ctx w) =
           fst (convert_multiple_files ex (supported_files ex files) fmt uc ctx w) \<and>
         converted ex files uc ctx w = converted ex (supported_files ex files) uc ctx w"
proof -
  obtain tmp w0 where m: "mkdtemp w = (tmp, w0)"
    by (cases "mkdtemp w") auto
  have len: "length (supported_files ex files) \<le> 10"
    using le_trans [OF length_filter_le assms] by (simp add: supported_files_def)
  note eq = multiple_loop_supported [of ex uc ctx tmp w0 "[]" "[]" files "[]"]
  obtain w1 rs cf where l: "foldl (multiple_file ex uc ctx tmp) (w0, [], []) files = (w1, rs, cf)"
    by (cases "foldl (multiple_file ex uc ctx tmp) (w0, [], []) files") auto
  obtain w2 rs2 cf2 where l2:
    "foldl (multiple_file ex uc ctx tmp) (w0, [], []) (supported_files ex files) = (w2, rs2, cf2)"
    by (cases "foldl (multiple_file ex uc ctx tmp) (w0, [], []) (supported_files ex files)") auto
  from eq l l2 have "w2 = w1" "cf2 = cf" by auto
  with assms len m l l2 show ?thesis
    by (auto simp: convert_multiple_files_def leave_tempdir_def rmtree_def converted_def
        split: prod.splits)
qed

lemma all_unsupported:
  assumes "\<forall>f \<in> set files. \<not> supported (suffix_lower ex (filename f))"
  shows "converted ex files uc ctx w = [] \<and>
         batch_results ex files uc ctx w = map (\<lambda>f. failed_entry f unsupported_short) files"
  using multiple_loop_unsupported [OF assms]
  by (simp add: converted_def batch_results_def split: prod.splits)

text \<open>
  C2, as amended. For an upload whose extension is not supported, \<open>/convert\<close>,
  \<open>/convert-chunked\<close> and \<open>/convert-chunked-async\<close> answer 400 and leave the state as it
  was: no directory made, no record, no call to a library; and the loop of
  \<open>/convert-multiple\<close> skips the file with an entry in \<open>results\<close>, storing and converting
  nothing. A request to \<open>/convert-multiple\<close> with at most ten files makes its directory
  first, whatever the files are; it leaves the state and the converted files of the same
  request without its unsupported files; and, the removal of its directory not failing, its
  answer is the one of lines 873 to 901 for what the loop has left: a 400 exactly when the
  format is \<open>zip\<close> and no file was converted. When every file is unsupported, nothing is
  converted and \<open>results\<close> holds one failure entry per file.
\<close>

theorem unsupported_extension_rejected:
  "(\<not> supported (suffix_lower ex (filename file)) \<longrightarrow>
      convert_file ex file out_name im uc ctx w = (w, HTTPException 400 unsupported_detail) \<and>
      convert_file_chunked ex file im ctx mt w = (w, HTTPException 400 unsupported_detail) \<and>
      convert_file_chunked_async ex file im ctx mt w = (w, HTTPException 400 unsupported_detail) \<and>
      multiple_file ex uc ctx tmp (w, results, converted_files) file =
        (w, results @ [failed_entry file unsupported_short], converted_files)) \<and>
   (length files \<le> 10 \<longrightarrow>
      (\<exists>more. calls (fst (convert_multiple_files ex files fmt uc ctx w)) =
                calls w @ Mkdtemp (dir_count w) # more) \<and>
      fst (convert_multiple_files ex files fmt uc ctx w) =
        fst (convert_multiple_files ex (supported_files ex files) fmt uc ctx w) \<and>
      converted ex files uc ctx w = converted ex (supported_files ex files) uc ctx w \<and>
      (\<not> rmtree_fails ex (clock w) (dir_count w) \<longrightarrow>
         snd (convert_multiple_files ex files fmt uc ctx w) =
           multiple_response files fmt uc ctx (batch_results ex files uc ctx w)
             (converted ex files uc ctx w) \<and>
         ((\<exists>detail. snd (convert_multiple_files ex files fmt uc ctx w) = HTTPException 400 detail) \<longleftrightarrow>
            fmt = Zip_format \<and> converted ex files uc ctx w = [])) \<and>
      ((\<forall>f \<in> set files. \<not> supported (suffix_lower ex (filename f))) \<longrightarrow>
         converted ex files uc ctx w = [] \<and>
         batch_results ex files uc ctx w = map (\<lambda>f. failed_entry f unsupported_short) files))"
proof (intro conjI impI)
  assume "\<not> supported (suffix_lower ex (filename file))"
  then show "convert_file ex file out_name im uc ctx w = (w, HTTPException 400 unsupported_detail)"
    and "convert_file_chunked ex file im ctx mt w = (w, HTTPException 400 unsupported_detail)"
    and "convert_file_chunked_async ex file im ctx mt w = (w, HTTPException 400 unsupported_detail)"
    and "multiple_file ex uc ctx tmp (w, results, converted_files) file =
        (w, results @ [failed_entry file unsupported_short], converted_files)"
    by (simp_all add: convert_file_def convert_file_chunked_def convert_file_chunked_async_def
        multiple_file_def)
next
  assume len: "length files \<le> 10"
  from convert_multiple_files_answer [OF len]
  show "\<exists>more. calls (fst (convert_multiple_files ex files fmt uc ctx w)) =
                calls w @ Mkdtemp (dir_count w) # more"
    by blast
  from convert_multiple_files_supported [OF len]
  show "fst (convert_multiple_files ex files fmt uc ctx w) =
        fst (convert_multiple_files ex (supported_files ex files) fmt uc ctx w)"
    and "converted ex files uc ctx w = converted ex (supported_files ex files) uc ctx w"
    by blast+
  {
    assume ok: "\<not> rmtree_fails ex (clock w) (dir_count w)"
    with convert_multiple_files_answer [OF len, of ex fmt uc ctx w]
    show ans: "snd (convert_multiple_files ex files fmt uc ctx w) =
           multiple_response files fmt uc ctx (batch_results ex files uc ctx w)
             (converted ex files uc ctx w)"
      by simp
    show "(\<exists>detail. snd (convert_multiple_files ex files fmt uc ctx w) = HTTPException 400 detail) \<longleftrightarrow>
            fmt = Zip_format \<and> converted ex files uc ctx w = []"
      unfolding ans by (cases fmt) (auto simp: multiple_response_def)
  }
  {
    assume "\<forall>f \<in> set files. \<not> supported (suffix_lower ex (filename f))"
    from all_unsupported [OF this]
    show "converted ex files uc ctx w = []"
      and "batch_results ex files uc ctx w = map (\<lambda>f. failed_entry f unsupported_short) files"
      by blast+
  }
qed

lemma mixed_converted: "converted demo [a_txt, b_exe] False True init = [(ascii ''a.md'', [104, 105])]"
  using a_txt_supported b_exe_unsupported
  by (simp add: converted_def mkdtemp_def multiple_file_def called_def init_def bind_w_def
      write_file_def do_convert_def read_file_def final_content_def demo_def a_txt_def ascii_def)

theorem unsupported_extension_rejected_witness:
  "\<not> supported (suffix_lower demo (filename b_exe)) \<and>
   convert_file demo b_exe None False False True init = (init, HTTPException 400 unsupported_detail) \<and>
   convert_file_chunked demo b_exe False True None init = (init, HTTPException 400 unsupported_detail) \<and>
   convert_file_chunked_async demo b_exe False True None init =
     (init, HTTPException 400 unsupported_detail) \<and>
   multiple_file demo False True 0 (init, [], []) b_exe =
     (init, [failed_entry b_exe unsupported_short], []) \<and>
   length [a_txt, b_exe] \<le> 10 \<and> \<not> rmtree_fails demo (clock init) (dir_count init) \<and>
   supported_files demo [a_txt, b_exe] = [a_txt] \<and>
   fst (convert_multiple_files demo [a_txt, b_exe] Zip_format False True init) =
     fst (convert_multiple_files demo [a_txt] Zip_format False True init) \<and>
   snd (convert_multiple_files demo [a_txt, b_exe] Zip_format False True init) =
     Zip [(ascii ''a.md'', [104, 105])] \<and>
   converted demo [b_exe] False True init = [] \<and>
   snd (convert_multiple_files demo [b_exe] Zip_format False True init) =
     HTTPException 400 none_convertible_detail"
proof -
  have s: "supported_files demo [a_txt, b_exe] = [a_txt]"
    using a_txt_supported b_exe_unsupported by (simp add: supported_files_def)
  have u: "\<forall>f \<in> set [b_exe]. \<not> supported (suffix_lower demo (filename f))"
    using b_exe_unsupported by simp
  have r: "\<not> rmtree_fails demo (clock init) (dir_count init)"
    by (simp add: demo_def)
  have s2: "supported_files demo [b_exe] = []"
    using b_exe_unsupported by (simp add: supported_files_def)
  have e: "converted demo [] False True init = []"
    by (simp add: converted_def mkdtemp_def)
  note t1 = unsupported_extension_rejected
    [of demo b_exe None False False True init None 0 "[]" "[]" "[a_txt, b_exe]" Zip_format]
  note t2 = unsupported_extension_rejected
    [of demo b_exe None False False True init None 0 "[]" "[]" "[b_exe]" Zip_format]
  from t1 t2 s s2 e u r b_exe_unsupported mixed_converted show ?thesis
    by (simp add: multiple_response_def)
qed

text \<open>
  The claim as stated fails for \<open>/convert-multiple\<close>: a request with one unsupported
  file and \<open>output_format=json\<close> is answered with the JSON summary, after a directory has
  been made and removed.
\<close>

theorem convert_multiple_unsupported_counterexample:
  "\<not> supported (suffix_lower demo (filename b_exe)) \<and>
   snd (convert_multiple_files demo [b_exe] Json_format False True init) =
     Json (JObj [(''total_files'', JInt 1),
                 (''successful_conversions'', JInt 0),
                 (''chunking_applied'', JBool False),
                 (''contextualize_applied'', JBool True),
                 (''results'', JList [failed_entry b_exe unsupported_short]),
                 (''converted_content'', JDict [])]) \<and>
   calls (fst (convert_multiple_files demo [b_exe] Json_format False True init)) =
     [Mkdtemp 0, Rmtree With_exit 0 True]"
  using b_exe_unsupported
  by (simp add: convert_multiple_files_def multiple_file_def multiple_response_def
      leave_tempdir_def rmtree_def mkdtemp_def called_def init_def)
     (simp add: demo_def)

section \<open>The rejections of \<open>/convert-multiple\<close>\<close>

text \<open>
  C6, as amended. More than ten files: 400, and the state is as it was. Ten files or
  fewer of which none was converted: 400 when the output format is \<open>zip\<close>, but the JSON
  summary with zero successful conversions when it is \<open>json\<close>. (The removal of the
  handler's directory is taken not to fail.)
\<close>

theorem convert_multiple_files_rejections:
  "(length files > 10 \<longrightarrow>
      convert_multiple_files ex files fmt uc ctx w = (w, HTTPException 400 too_many_detail)) \<and>
   (length files \<le> 10 \<and> converted ex files uc ctx w = [] \<and>
    \<not> rmtree_fails ex (clock w) (dir_count w) \<longrightarrow>
      snd (convert_multiple_files ex files fmt uc ctx w) =
        (case fmt of
           Zip_format \<Rightarrow> HTTPException 400 none_convertible_detail
         | Json_format \<Rightarrow>
             Json (JObj [(''total_files'', JInt (int (length files))),
                         (''successful_conversions'', JInt 0),
                         (''chunking_applied'', JBool uc),
                         (''contextualize_applied'', JBool ctx),
                         (''results'', JList (batch_results ex files uc ctx w)),
                         (''converted_content'', JDict [])])))"
proof (intro conjI impI)
  assume "length files > 10"
  then show "convert_multiple_files ex files fmt uc ctx w = (w, HTTPException 400 too_many_detail)"
    by (simp add: convert_multiple_files_def)
next
  assume a: "length files \<le> 10 \<and> converted ex files uc ctx w = [] \<and>
    \<not> rmtree_fails ex (clock w) (dir_count w)"
  obtain tmp w0 where m: "mkdtemp w = (tmp, w0)"
    by (cases "mkdtemp w") auto
  then have tmp: "tmp = dir_count w" and w0: "clock w0 = clock w" "disk w0 tmp \<noteq> None"
    by (auto simp: mkdtemp_def called_def)
  obtain w1 rs cf where l: "foldl (multiple_file ex uc ctx tmp) (w0, [], []) files = (w1, rs, cf)"
    by (cases "foldl (multiple_file ex uc ctx tmp) (w0, [], []) files") auto
  from multiple_loop_keeps [OF l] w0 have w1: "clock w1 = clock w" "disk w1 tmp \<noteq> None"
    by auto
  from a m l have cf: "cf = []"
    by (simp add: converted_def)
  from m l have rs: "batch_results ex files uc ctx w = rs"
    by (simp add: batch_results_def)
  from a w1 tmp have "rmtree ex With_exit tmp w1 =
      (called (Rmtree With_exit tmp True) (w1\<lparr>disk := (disk w1)(tmp := None)\<rparr>), True)"
    by (simp add: rmtree_def)
  with a m l cf rs show "snd (convert_multiple_files ex files fmt uc ctx w) =
        (case fmt of
           Zip_format \<Rightarrow> HTTPException 400 none_convertible_detail
         | Json_format \<Rightarrow>
             Json (JObj [(''total_files'', JInt (int (length files))),
                         (''successful_conversions'', JInt 0),
                         (''chunking_applied'', JBool uc),
                         (''contextualize_applied'', JBool ctx),
                         (''results'', JList (batch_results ex files uc ctx w)),
                         (''converted_content'', JDict [])]))"
    by (cases fmt) (simp_all add: convert_multiple_files_def leave_tempdir_def multiple_response_def)
qed

lemma none_converted_sample: "converted demo [b_exe, c_bin] False True init = []"
  using b_exe_unsupported c_bin_unsupported
  by (simp add: converted_def mkdtemp_def multiple_file_def)

theorem convert_multiple_files_rejections_witness:
  "length (replicate 11 a_txt) > 10 \<and>
   convert_multiple_files demo (replicate 11 a_txt) Zip_format False True init =
     (init, HTTPException 400 too_many_detail) \<and>
   length [b_exe, c_bin] \<le> 10 \<and> converted demo [b_exe, c_bin] False True init = [] \<and>
   \<not> rmtree_fails demo (clock init) (dir_count init) \<and>
   snd (convert_multiple_files demo [b_exe, c_bin] Zip_format False True init) =
     HTTPException 400 none_convertible_detail"
  using convert_multiple_files_rejections [of "replicate 11 a_txt" demo Zip_format False True init]
    convert_multiple_files_rejections [of "[b_exe, c_bin]" demo Zip_format False True init]
    none_converted_sample
  by (simp add: demo_def)

text \<open>
  The claim as stated fails for \<open>output_format=json\<close>: two files, neither convertible,
  and the answer is the JSON summary, not a 400.
\<close>

theorem convert_multiple_json_counterexample:
  "converted demo [b_exe, c_bin] False True init = [] \<and>
   snd (convert_multiple_files demo [b_exe, c_bin] Json_format False True init) =
     Json (JObj [(''total_files'', JInt 2),
                 (''successful_conversions'', JInt 0),
                 (''chunking_applied'', JBool False),
                 (''contextualize_applied'', JBool True),
                 (''results'', JList [failed_entry b_exe unsupported_short,
                                      failed_entry c_bin unsupported_short]),
                 (''converted_content'', JDict [])])"
  using b_exe_unsupported c_bin_unsupported none_converted_sample
  by (simp add: convert_multiple_files_def multiple_file_def multiple_response_def
      leave_tempdir_def rmtree_def mkdtemp_def called_def init_def)
     (simp add: demo_def)

section \<open>The invariant of the server\<close>

lemma removals_append [simp]: "removals (cs @ cs') d = removals cs d @ removals cs' d"
  by (simp add: removals_def)

lemma removals_Cons [simp]: "removals (c # cs) d = removal_of d c @ removals cs d"
  by (simp add: removals_def)

lemma removals_Nil [simp]: "removals [] d = []"
  by (simp add: removals_def)

lemma selected_pc [simp]: "selected ex (t\<lparr>pc := p\<rparr>) ac = selected ex t ac"
  by (simp add: selected_def)

lemma made_pc [simp]: "made ex (t\<lparr>pc := p\<rparr>) rd = made ex t rd"
  by (simp add: made_def result_data_def)

lemma workspace_pc [simp]: "workspace (t\<lparr>pc := p\<rparr>) = workspace t"
  by (simp add: workspace_def)

lemma settled_pc [simp]: "settled ex (t\<lparr>pc := p\<rparr>) r = settled ex t r"
  by (simp add: settled_def)

lemma pc_ok_pc [simp]: "pc_ok ex (t\<lparr>pc := p\<rparr>) q = pc_ok ex t q"
  by (cases q) simp_all

lemma job_at_pc [simp]: "job_at ex (t\<lparr>pc := p\<rparr>) q r = job_at ex t q r"
  by (cases q) simp_all

lemma inv_init: "inv ex init"
  by (simp add: inv_def init_def dirs_ok_def)

lemma inv_tick: "inv ex w \<Longrightarrow> inv ex (w\<lparr>clock := Suc (clock w)\<rparr>)"
  by (simp add: inv_def dirs_ok_def ws_ok_def)

text \<open>What one statement leaves alone.\<close>

lemma exec_frame:
  assumes "exec ex j t q w = (w1, p)" and "pc_ok ex t q"
  shows "background w1 = background w \<and> uuid_count w1 = uuid_count w \<and>
         dir_count w1 = dir_count w \<and> clock w1 = clock w \<and>
         (\<forall>j'. j' \<noteq> j \<longrightarrow> job_store w1 j' = job_store w j') \<and>
         (job_store w j = None \<longrightarrow> job_store w1 j = None) \<and>
         (\<forall>d. d \<noteq> workspace t \<longrightarrow>
            disk w1 d = disk w d \<and> removals (calls w1) d = removals (calls w) d)"
  using assms
  by (cases q)
     (auto simp: assign_def assign_in_handler_def do_convert_def do_select_chunker_def
        do_excel_sheets_def do_chunk_def rmtree_def called_def
        split: option.splits sum.splits prod.splits if_splits)


text \<open>What one statement does to the job it belongs to.\<close>

lemma madeI:
  assumes "selected ex t ac" and "chunk_doc ac doc = Inr chunks"
    and "chunk_data_async ex ac (arg_contextualize t) (arg_file_extension t) sheets 0 chunks =
           Inr chunk_data"
  shows "made ex t (result_data t sheets chunks chunk_data)"
  using assms unfolding made_def by blast

lemma exec_pc_ok:
  assumes "exec ex j t q w = (w1, p)" and "pc_ok ex t q"
    and "\<forall>r. job_store w j = Some r \<longrightarrow> job_at ex t q r \<and> temp_dir r = workspace t"
  shows "pc_ok ex t p"
  using assms
  by (cases q)
     (auto simp: assign_def assign_in_handler_def do_convert_def do_select_chunker_def
        do_excel_sheets_def do_chunk_def rmtree_def called_def selected_def
        intro: madeI [unfolded selected_def]
        split: option.splits sum.splits prod.splits if_splits)

lemma exec_job_at:
  assumes "exec ex j t q w = (w1, p)" and "pc_ok ex t q"
    and "job_store w j = Some r" and "job_at ex t q r" and "temp_dir r = workspace t"
  shows "\<exists>r'. job_store w1 j = Some r' \<and> job_at ex t p r' \<and> temp_dir r' = workspace t"
  using assms
  by (cases q)
     (auto simp: assign_def assign_in_handler_def do_convert_def do_select_chunker_def
        do_excel_sheets_def do_chunk_def rmtree_def called_def running_def untouched_def
        settled_def
        split: option.splits sum.splits prod.splits if_splits)

lemma exec_ws:
  assumes "exec ex j t q w = (w1, p)" and "pc_ok ex t q"
    and "\<forall>r. job_store w j = Some r \<longrightarrow> job_at ex t q r"
    and "ws_state ex j (workspace t) q (job_store w j \<noteq> None)
           (disk w (workspace t) \<noteq> None) (removals (calls w) (workspace t))"
  shows "ws_state ex j (workspace t) p (job_store w1 j \<noteq> None)
           (disk w1 (workspace t) \<noteq> None) (removals (calls w1) (workspace t)) \<and>
         (disk w1 (workspace t) \<noteq> None \<longrightarrow> disk w (workspace t) \<noteq> None) \<and>
         (removals (calls w1) (workspace t) = removals (calls w) (workspace t) \<or>
          disk w (workspace t) \<noteq> None \<and> disk w1 (workspace t) = None \<and>
          removals (calls w1) (workspace t) = removals (calls w) (workspace t) @ [Line_618 j])"
  using assms
  by (cases q)
     (auto simp: assign_def assign_in_handler_def do_convert_def do_select_chunker_def
        do_excel_sheets_def do_chunk_def rmtree_def called_def ws_state_def
        split: option.splits sum.splits prod.splits if_splits)


lemma invD_fresh: "inv ex w \<Longrightarrow> uuid_count w \<le> j \<Longrightarrow> background w j = None"
  by (simp add: inv_def)

lemma invD_job:
  "inv ex w \<Longrightarrow> job_store w j = Some r \<Longrightarrow>
   \<exists>t. background w j = Some t \<and> job_at ex t (pc t) r \<and> temp_dir r = workspace t"
  unfolding inv_def by blast

lemma invD_job':
  assumes "inv ex w" and "job_store w j = Some r" and "background w j = Some t"
  shows "job_at ex t (pc t) r \<and> temp_dir r = workspace t"
  using invD_job [OF assms(1,2)] assms(3) by auto

lemma invD_task:
  "inv ex w \<Longrightarrow> background w j = Some t \<Longrightarrow>
   workspace t < dir_count w \<and> pc_ok ex t (pc t) \<and> ws_ok ex w j t"
  unfolding inv_def by blast

lemma invD_distinct:
  "inv ex w \<Longrightarrow> background w j = Some t \<Longrightarrow> background w j' = Some t' \<Longrightarrow>
   workspace t = workspace t' \<Longrightarrow> j = j'"
  unfolding inv_def by blast

lemma invD_dirs: "inv ex w \<Longrightarrow> dirs_ok w"
  by (simp add: inv_def)

text \<open>An event that touches one job and its workspace only.\<close>

lemma inv_one_job:
  assumes "inv ex w" and Some: "background w j = Some t"
    and f_bg: "background w' = (background w)(j \<mapsto> t')" and f_ws: "workspace t' = workspace t"
    and f_uc: "uuid_count w' = uuid_count w" and f_dc: "dir_count w' = dir_count w"
    and f_js: "\<And>j'. j' \<noteq> j \<Longrightarrow> job_store w' j' = job_store w j'"
    and f_disk: "\<And>d. d \<noteq> workspace t \<Longrightarrow> disk w' d = disk w d"
    and f_rm: "\<And>d. d \<noteq> workspace t \<Longrightarrow> removals (calls w') d = removals (calls w) d"
    and pk: "pc_ok ex t' (pc t')"
    and at: "\<And>r. job_store w' j = Some r \<Longrightarrow> job_at ex t' (pc t') r \<and> temp_dir r = workspace t"
    and w_state: "ws_ok ex w' j t'"
    and w_disk: "disk w' (workspace t) \<noteq> None \<Longrightarrow> disk w (workspace t) \<noteq> None"
    and w_rm: "removals (calls w') (workspace t) = removals (calls w) (workspace t) \<or>
          (\<exists>s. disk w (workspace t) \<noteq> None \<and> disk w' (workspace t) = None \<and>
          removals (calls w') (workspace t) = removals (calls w) (workspace t) @ [s])"
  shows "inv ex w'"
proof -
  have j: "j < uuid_count w"
  proof (rule ccontr)
    assume "\<not> j < uuid_count w"
    then have "uuid_count w \<le> j" by simp
    from invD_fresh [OF assms(1) this] Some show False by simp
  qed
  from invD_task [OF assms(1) Some] have ws: "workspace t < dir_count w"
    by simp
  have other: "workspace s \<noteq> workspace t" if "background w j' = Some s" "j' \<noteq> j" for j' s
    using invD_distinct [OF assms(1) that(1) Some] that(2) by blast
  have i1: "\<forall>j'. uuid_count w' \<le> j' \<longrightarrow> background w' j' = None"
  proof (intro allI impI)
    fix j' assume "uuid_count w' \<le> j'"
    with f_uc have le: "uuid_count w \<le> j'" by simp
    with j have "j' \<noteq> j" by simp
    with invD_fresh [OF assms(1) le] f_bg show "background w' j' = None" by simp
  qed
  have i2: "\<forall>j' r. job_store w' j' = Some r \<longrightarrow>
       (\<exists>s. background w' j' = Some s \<and> job_at ex s (pc s) r \<and> temp_dir r = workspace s)"
  proof (intro allI impI)
    fix j' r
    assume a: "job_store w' j' = Some r"
    show "\<exists>s. background w' j' = Some s \<and> job_at ex s (pc s) r \<and> temp_dir r = workspace s"
    proof (cases "j' = j")
      case True
      with a at [of r] f_bg f_ws show ?thesis by simp
    next
      case False
      with a f_js have "job_store w j' = Some r" by simp
      from invD_job [OF assms(1) this] obtain s where
        "background w j' = Some s" "job_at ex s (pc s) r" "temp_dir r = workspace s"
        by blast
      with False f_bg show ?thesis by simp
    qed
  qed
  have i3: "\<forall>j' s. background w' j' = Some s \<longrightarrow>
       workspace s < dir_count w' \<and> pc_ok ex s (pc s) \<and> ws_ok ex w' j' s"
  proof (intro allI impI)
    fix j' s
    assume a: "background w' j' = Some s"
    show "workspace s < dir_count w' \<and> pc_ok ex s (pc s) \<and> ws_ok ex w' j' s"
    proof (cases "j' = j")
      case True
      with a f_bg have "s = t'" by simp
      with True ws f_dc f_ws pk w_state show ?thesis
        by simp
    next
      case False
      with a f_bg have b: "background w j' = Some s" by simp
      from invD_task [OF assms(1) b] have "workspace s < dir_count w" "pc_ok ex s (pc s)" "ws_ok ex w j' s"
        by simp_all
      moreover from other [OF b False] f_disk f_rm have "disk w' (workspace s) = disk w (workspace s)"
        "removals (calls w') (workspace s) = removals (calls w) (workspace s)"
        by simp_all
      ultimately show ?thesis
        using f_dc f_js [OF False] by (simp add: ws_ok_def)
    qed
  qed
  have same: "\<exists>t0. background w j' = Some t0 \<and> workspace t0 = workspace s"
    if "background w' j' = Some s" for j' s
  proof (cases "j' = j")
    case True
    with that f_bg have "s = t'" by simp
    with True Some f_ws show ?thesis by simp
  next
    case False
    with that f_bg show ?thesis by simp
  qed
  have i4: "\<forall>j1 j2 t1 t2. background w' j1 = Some t1 \<and> background w' j2 = Some t2 \<and>
       workspace t1 = workspace t2 \<longrightarrow> j1 = j2"
  proof (intro allI impI)
    fix j1 j2 t1 t2
    assume a: "background w' j1 = Some t1 \<and> background w' j2 = Some t2 \<and> workspace t1 = workspace t2"
    from a same [of j1 t1] obtain s1 where s1: "background w j1 = Some s1" "workspace s1 = workspace t1"
      by blast
    from a same [of j2 t2] obtain s2 where s2: "background w j2 = Some s2" "workspace s2 = workspace t2"
      by blast
    from a s1 s2 have "workspace s1 = workspace s2" by simp
    from invD_distinct [OF assms(1) s1(1) s2(1) this] show "j1 = j2" .
  qed
  have i5: "dirs_ok w'"
    unfolding dirs_ok_def
  proof (intro allI)
    fix d
    from invD_dirs [OF assms(1)] have d0: "disk w d \<noteq> None \<longrightarrow> d < dir_count w \<and> removals (calls w) d = []"
      "dir_count w \<le> d \<longrightarrow> removals (calls w) d = []"
      "length (removals (calls w) d) \<le> 1"
      by (simp_all add: dirs_ok_def)
    show "(disk w' d \<noteq> None \<longrightarrow> d < dir_count w' \<and> removals (calls w') d = []) \<and>
         (dir_count w' \<le> d \<longrightarrow> removals (calls w') d = []) \<and>
         length (removals (calls w') d) \<le> 1"
    proof (cases "d = workspace t")
      case True
      with d0 w_disk w_rm ws f_dc show ?thesis
        by auto
    next
      case False
      with d0 f_disk f_rm f_dc show ?thesis
        by simp
    qed
  qed
  from i1 i2 i3 i4 i5 show ?thesis
    unfolding inv_def by blast
qed

lemma inv_statement:
  assumes "inv ex w"
  shows "inv ex (run_statement ex j w)"
proof (cases "background w j")
  case None
  with assms show ?thesis by (simp add: run_statement_def)
next
  case (Some t)
  obtain w1 p where e: "exec ex j t (pc t) w = (w1, p)"
    by (cases "exec ex j t (pc t) w") auto
  let ?w = "w1\<lparr>background := (background w1)(j \<mapsto> t\<lparr>pc := p\<rparr>)\<rparr>"
  from Some e have rs: "run_statement ex j w = ?w"
    by (simp add: run_statement_def)
  from invD_task [OF assms Some] have ok: "pc_ok ex t (pc t)" and wsok: "ws_ok ex w j t"
    by simp_all
  have at: "\<forall>r. job_store w j = Some r \<longrightarrow> job_at ex t (pc t) r \<and> temp_dir r = workspace t"
    using invD_job' [OF assms _ Some] by blast
  from exec_frame [OF e ok] have
    f_bg: "background w1 = background w" and f_uc: "uuid_count w1 = uuid_count w" and
    f_dc: "dir_count w1 = dir_count w" and
    f_js: "\<And>j'. j' \<noteq> j \<Longrightarrow> job_store w1 j' = job_store w j'" and
    f_none: "job_store w j = None \<Longrightarrow> job_store w1 j = None" and
    f_disk: "\<And>d. d \<noteq> workspace t \<Longrightarrow> disk w1 d = disk w d" and
    f_rm: "\<And>d. d \<noteq> workspace t \<Longrightarrow> removals (calls w1) d = removals (calls w) d"
    by simp_all
  note pk = exec_pc_ok [OF e ok at]
  from at have at': "\<forall>r. job_store w j = Some r \<longrightarrow> job_at ex t (pc t) r"
    by simp
  from exec_ws [OF e ok at' wsok [unfolded ws_ok_def]] have
    w_state: "ws_state ex j (workspace t) p (job_store w1 j \<noteq> None)
           (disk w1 (workspace t) \<noteq> None) (removals (calls w1) (workspace t))" and
    w_disk: "disk w1 (workspace t) \<noteq> None \<Longrightarrow> disk w (workspace t) \<noteq> None" and
    w_rm: "removals (calls w1) (workspace t) = removals (calls w) (workspace t) \<or>
          disk w (workspace t) \<noteq> None \<and> disk w1 (workspace t) = None \<and>
          removals (calls w1) (workspace t) = removals (calls w) (workspace t) @ [Line_618 j]"
    by simp_all
  have at1: "job_at ex (t\<lparr>pc := p\<rparr>) (pc (t\<lparr>pc := p\<rparr>)) r \<and> temp_dir r = workspace t"
    if "job_store ?w j = Some r" for r
  proof -
    from that have a: "job_store w1 j = Some r" by simp
    with f_none obtain r0 where r0: "job_store w j = Some r0"
      by (cases "job_store w j") auto
    with at have "job_at ex t (pc t) r0" "temp_dir r0 = workspace t"
      by simp_all
    from exec_job_at [OF e ok r0 this] a show ?thesis
      by auto
  qed
  have "inv ex ?w"
  proof (rule inv_one_job [OF assms Some, where t' = "t\<lparr>pc := p\<rparr>"])
    show "background ?w = (background w)(j \<mapsto> t\<lparr>pc := p\<rparr>)"
      using f_bg by simp
    show "removals (calls ?w) (workspace t) = removals (calls w) (workspace t) \<or>
          (\<exists>s. disk w (workspace t) \<noteq> None \<and> disk ?w (workspace t) = None \<and>
          removals (calls ?w) (workspace t) = removals (calls w) (workspace t) @ [s])"
      using w_rm by auto
    show "ws_ok ex ?w j (t\<lparr>pc := p\<rparr>)"
      using w_state by (simp add: ws_ok_def)
  qed (use f_uc f_dc f_js f_disk f_rm pk at1 w_disk in simp_all)
  with rs show ?thesis by simp
qed

lemma inv_delete:
  assumes "inv ex w"
  shows "inv ex (fst (delete_job ex j w))"
proof (cases "job_store w j")
  case None
  with assms show ?thesis by (simp add: delete_job_def)
next
  case (Some r)
  from invD_job [OF assms Some] obtain t where t: "background w j = Some t"
    and at: "job_at ex t (pc t) r" and d: "temp_dir r = workspace t"
    by blast
  from invD_task [OF assms t] have pk: "pc_ok ex t (pc t)" and wsok: "ws_ok ex w j t"
    by simp_all
  let ?w = "fst (delete_job ex j w)"
  have bg: "background ?w = (background w)(j \<mapsto> t)"
    using Some t by (auto simp: delete_job_def rmtree_def called_def split: if_splits)
  show ?thesis
  proof (rule inv_one_job [OF assms t bg])
    show "ws_ok ex ?w j t"
      using Some d wsok
      by (auto simp: delete_job_def rmtree_def called_def ws_ok_def ws_state_def split: if_splits)
    show "removals (calls ?w) (workspace t) = removals (calls w) (workspace t) \<or>
          (\<exists>s. disk w (workspace t) \<noteq> None \<and> disk ?w (workspace t) = None \<and>
          removals (calls ?w) (workspace t) = removals (calls w) (workspace t) @ [s])"
      using Some d by (auto simp: delete_job_def rmtree_def called_def split: if_splits)
    show "job_at ex t (pc t) r' \<and> temp_dir r' = workspace t" if "job_store ?w j = Some r'" for r'
      using that Some d at by (auto simp: delete_job_def rmtree_def called_def split: if_splits)
  qed (use Some d pk in \<open>auto simp: delete_job_def rmtree_def called_def split: if_splits\<close>)
qed

text \<open>An event that touches no job: it may make one directory and remove it again.\<close>

lemma inv_outside:
  assumes "inv ex w"
    and "job_store w' = job_store w" and "background w' = background w"
    and "uuid_count w \<le> uuid_count w'" and "dir_count w \<le> dir_count w'"
    and "\<And>d. d < dir_count w \<Longrightarrow> disk w' d = disk w d \<and> removals (calls w') d = removals (calls w) d"
    and "dirs_ok w'"
  shows "inv ex w'"
  unfolding inv_def
proof (intro conjI allI impI)
  fix j assume "uuid_count w' \<le> j"
  with assms(4) have "uuid_count w \<le> j" by simp
  from invD_fresh [OF assms(1) this] assms(3) show "background w' j = None" by simp
next
  fix j r assume "job_store w' j = Some r"
  with assms(2) have "job_store w j = Some r" by simp
  from invD_job [OF assms(1) this] assms(3)
  show "\<exists>t. background w' j = Some t \<and> job_at ex t (pc t) r \<and> temp_dir r = workspace t"
    by simp
next
  fix j t assume "background w' j = Some t"
  with assms(3) have t: "background w j = Some t" by simp
  from invD_task [OF assms(1) t] have a: "workspace t < dir_count w" "pc_ok ex t (pc t)" "ws_ok ex w j t"
    by simp_all
  from a(1) assms(5) show "workspace t < dir_count w'" by simp
  from a(2) show "pc_ok ex t (pc t)" .
  from assms(6) [OF a(1)] a(3) assms(2) show "ws_ok ex w' j t"
    by (simp add: ws_ok_def)
next
  fix j j' t t'
  assume "background w' j = Some t \<and> background w' j' = Some t' \<and> workspace t = workspace t'"
  with assms(3) invD_distinct [OF assms(1)] show "j = j'"
    by auto
next
  show "dirs_ok w'" by fact
qed

lemma inside_refl: "inside tmp w w"
  by (simp add: inside_def)

lemma inside_trans: "inside tmp w w1 \<Longrightarrow> inside tmp w1 w2 \<Longrightarrow> inside tmp w w2"
  by (auto simp: inside_def)

lemma inside_write_file:
  "inside tmp w (fst (write_file ex tmp file w))"
  by (auto simp: inside_def write_file_def called_def split: option.splits)

lemma inside_do_convert: "inside tmp w (fst (do_convert ex p w))"
  by (simp add: inside_def do_convert_def called_def)

lemma inside_do_chunk: "inside tmp w (fst (do_chunk ac doc w))"
  by (simp add: inside_def do_chunk_def called_def)

lemma inside_do_select_chunker: "inside tmp w (fst (do_select_chunker ex mt w))"
  by (simp add: inside_def do_select_chunker_def called_def split: option.splits)

lemma inside_do_excel_sheets: "inside tmp w (fst (do_excel_sheets ex ext p w))"
  by (simp add: inside_def do_excel_sheets_def called_def)

lemma inside_bind_w:
  assumes "inside tmp w (fst m)" and "\<And>w1 x. inside tmp w1 (fst (f w1 x))"
  shows "inside tmp w (fst (bind_w m f))"
proof (cases m)
  case (Pair w1 r)
  with assms(1) have 1: "inside tmp w w1" by simp
  show ?thesis
  proof (cases r)
    case (Inl e)
    with Pair 1 show ?thesis by (simp add: bind_w_def)
  next
    case (Inr x)
    with Pair have "bind_w m f = f w1 x" by (simp add: bind_w_def)
    with inside_trans [OF 1 assms(2) [of w1 x]] show ?thesis by simp
  qed
qed

lemma inside_pure: "inside tmp w (fst (w, r))"
  by (simp add: inside_refl)

lemma inside_final_content: "inside tmp w (fst (final_content ex uc ctx doc w))"
proof (cases uc)
  case True
  then show ?thesis
    unfolding final_content_def
    by (simp del: fst_conv) (intro inside_bind_w inside_do_chunk inside_pure)
next
  case False
  then show ?thesis
    by (simp add: final_content_def inside_def called_def)
qed

lemma inside_convert_file_try:
  "inside tmp w (fst (convert_file_try ex file out_name uc ctx tmp w))"
  unfolding convert_file_try_def
  by (intro inside_bind_w inside_write_file inside_do_convert inside_final_content inside_pure)

lemma inside_convert_file_chunked_try:
  "inside tmp w (fst (convert_file_chunked_try ex file im ctx mt ext tmp w))"
  unfolding convert_file_chunked_try_def
proof (intro inside_bind_w inside_write_file inside_do_select_chunker inside_do_convert)
  fix w1 :: world and x :: unit and w1a :: world and xa :: chunker and w1b :: world and xb :: document
  obtain w2 sheets where s: "do_excel_sheets ex ext (tmp, filename file) w1b = (w2, sheets)"
    by (cases "do_excel_sheets ex ext (tmp, filename file) w1b") auto
  from inside_do_excel_sheets [of tmp w1b ex ext "(tmp, filename file)"] s have 1: "inside tmp w1b w2"
    by simp
  have 2: "inside tmp w2 (fst (bind_w (do_chunk xa xb w2) (\<lambda>w chunks.
             bind_w (w, chunk_data_sync ex xa ctx ext sheets 0 chunks) (\<lambda>w chunk_data.
               (let response_data = payload (filename file) ext mt ctx chunks chunk_data
                in (w, Inr (if im then dict_set response_data ''file_metadata''
                                        (file_metadata ex (filename file) (content file) ext xb)
                            else response_data)))))))"
    by (intro inside_bind_w inside_do_chunk inside_pure) (simp add: Let_def inside_refl)
  from inside_trans [OF 1 2] s
  show "inside tmp w1b
        (fst (case do_excel_sheets ex ext (tmp, filename file) w1b of
              (w, excel_sheets) \<Rightarrow>
                bind_w (do_chunk xa xb w)
                 (\<lambda>w chunks.
                     bind_w (w, chunk_data_sync ex xa ctx ext excel_sheets 0 chunks)
                      (\<lambda>w chunk_data.
                          let response_data = payload (filename file) ext mt ctx chunks chunk_data
                          in (w, Inr (if im
                                      then dict_set response_data ''file_metadata''
                                            (file_metadata ex (filename file) (content file) ext xb)
                                      else response_data))))))"
    by simp
qed

lemma inside_multiple_file:
  "inside tmp w (fst (multiple_file ex uc ctx tmp (w, rs, cf) f))"
proof (cases "supported (suffix_lower ex (filename f))")
  case False
  then show ?thesis by (simp add: multiple_file_def inside_refl)
next
  case True
  let ?m = "bind_w (write_file ex tmp f w) (\<lambda>w _.
                 bind_w (do_convert ex (tmp, filename f) w) (\<lambda>w doc.
                 bind_w (final_content ex uc ctx doc w) (\<lambda>w text. (w, Inr (doc, text)))))"
  have 1: "inside tmp w (fst ?m)"
    by (intro inside_bind_w inside_write_file inside_do_convert inside_final_content inside_pure)
  obtain w1 r where m: "?m = (w1, r)" by (cases ?m) auto
  with 1 have 2: "inside tmp w w1" by simp
  show ?thesis
  proof (cases r)
    case (Inl e)
    with True m 2 show ?thesis by (simp add: multiple_file_def)
  next
    case (Inr dt)
    obtain doc md where dt: "dt = (doc, md)" by (cases dt) auto
    have 3: "inside tmp w1 (fst (if uc
                        then bind_w (do_chunk (chunker ex) doc w1) (\<lambda>w chunks. (w, Inr (length chunks)))
                        else (w1, Inr 1)))"
    proof (cases uc)
      case True
      then show ?thesis
        by (simp del: fst_conv) (intro inside_bind_w inside_do_chunk inside_pure)
    next
      case False
      then show ?thesis by (simp add: inside_refl)
    qed
    from inside_trans [OF 2 3] True m Inr dt show ?thesis
      by (auto simp: multiple_file_def Let_def split: prod.splits sum.splits)
  qed
qed

lemma inside_multiple_loop:
  "inside tmp w (fst (foldl (multiple_file ex uc ctx tmp) (w, rs, cf) files))"
proof (induction files arbitrary: w rs cf)
  case Nil
  show ?case by (simp add: inside_refl)
next
  case (Cons f files)
  obtain w1 rs1 cf1 where one: "multiple_file ex uc ctx tmp (w, rs, cf) f = (w1, rs1, cf1)"
    by (cases "multiple_file ex uc ctx tmp (w, rs, cf) f") auto
  from inside_multiple_file [of tmp w ex uc ctx rs cf f] one have "inside tmp w w1" by simp
  from inside_trans [OF this Cons.IH [of w1 rs1 cf1]] one show ?case by simp
qed

text \<open>A handler that makes a directory, works inside it and removes it at the end.\<close>

lemma inv_with_tempdir:
  assumes "inv ex w" and m: "mkdtemp w0 = (tmp, w1)" and b: "inside tmp w1 w2"
    and r: "rmtree ex s tmp w2 = (w3, ok)"
    and w0: "job_store w0 = job_store w" "background w0 = background w" "disk w0 = disk w"
      "calls w0 = calls w" "dir_count w0 = dir_count w" "uuid_count w \<le> uuid_count w0"
  shows "inv ex w3"
proof (rule inv_outside [OF assms(1)])
  from m have tmp: "tmp = dir_count w" and w1: "job_store w1 = job_store w" "background w1 = background w"
    "uuid_count w1 = uuid_count w0" "dir_count w1 = Suc (dir_count w)"
    "disk w1 = (disk w)(tmp \<mapsto> Map.empty)" "\<And>d. removals (calls w1) d = removals (calls w) d"
    using w0 by (auto simp: mkdtemp_def called_def)
  from r have w3: "job_store w3 = job_store w2" "background w3 = background w2"
    "uuid_count w3 = uuid_count w2" "dir_count w3 = dir_count w2"
    "\<And>d. d \<noteq> tmp \<Longrightarrow> disk w3 d = disk w2 d \<and> removals (calls w3) d = removals (calls w2) d"
    "(disk w3 tmp = None \<and> removals (calls w3) tmp = removals (calls w2) tmp @ [s]) \<or>
     (disk w3 tmp = disk w2 tmp \<and> removals (calls w3) tmp = removals (calls w2) tmp)"
    by (auto simp: rmtree_def called_def split: if_splits)
  from b have w2: "job_store w2 = job_store w1" "background w2 = background w1"
    "uuid_count w2 = uuid_count w1" "dir_count w2 = dir_count w1"
    "\<And>d. d \<noteq> tmp \<Longrightarrow> disk w2 d = disk w1 d" "\<And>d. removals (calls w2) d = removals (calls w1) d"
    by (auto simp: inside_def)
  show "job_store w3 = job_store w" using w1 w2 w3 by simp
  show "background w3 = background w" using w1 w2 w3 by simp
  show "uuid_count w \<le> uuid_count w3" using w0 w1 w2 w3 by simp
  show "dir_count w \<le> dir_count w3" using w1 w2 w3 by simp
  show "disk w3 d = disk w d \<and> removals (calls w3) d = removals (calls w) d" if "d < dir_count w" for d
    using that tmp w1 w2 w3 by simp
  from invD_dirs [OF assms(1)] have d0: "\<And>d. disk w d \<noteq> None \<Longrightarrow> d < dir_count w \<and> removals (calls w) d = []"
    "\<And>d. dir_count w \<le> d \<Longrightarrow> removals (calls w) d = []"
    "\<And>d. length (removals (calls w) d) \<le> 1"
    by (auto simp: dirs_ok_def)
  show "dirs_ok w3"
    unfolding dirs_ok_def
  proof (intro allI)
    fix d
    show "(disk w3 d \<noteq> None \<longrightarrow> d < dir_count w3 \<and> removals (calls w3) d = []) \<and>
         (dir_count w3 \<le> d \<longrightarrow> removals (calls w3) d = []) \<and>
         length (removals (calls w3) d) \<le> 1"
    proof (cases "d = tmp")
      case True
      with d0(2) [of tmp] tmp w1 w2 w3 show ?thesis
        by auto
    next
      case False
      with d0 [of d] tmp w1 w2 w3 show ?thesis
        by auto
    qed
  qed
qed

lemma inv_convert_file: "inv ex w \<Longrightarrow> inv ex (fst (convert_file ex file out_name im uc ctx w))"
proof -
  assume i: "inv ex w"
  show ?thesis
  proof (cases "supported (suffix_lower ex (filename file))")
    case False
    with i show ?thesis by (simp add: convert_file_def)
  next
    case True
    obtain tmp w1 where m: "mkdtemp w = (tmp, w1)" by (cases "mkdtemp w") auto
    obtain w2 r where b: "convert_file_try ex file out_name uc ctx tmp w1 = (w2, r)"
      by (cases "convert_file_try ex file out_name uc ctx tmp w1") auto
    obtain w3 ok where r: "rmtree ex With_exit tmp w2 = (w3, ok)"
      by (cases "rmtree ex With_exit tmp w2") auto
    from inside_convert_file_try [of tmp w1 ex "file" out_name uc ctx] b have "inside tmp w1 w2"
      by simp
    from inv_with_tempdir [OF i m this r] have "inv ex w3" by simp
    moreover from True m b r have "fst (convert_file ex file out_name im uc ctx w) = w3"
      by (auto simp: convert_file_def leave_tempdir_def split: sum.splits bool.splits)
    ultimately show ?thesis by simp
  qed
qed

lemma inv_convert_file_chunked:
  "inv ex w \<Longrightarrow> inv ex (fst (convert_file_chunked ex file im ctx mt w))"
proof -
  assume i: "inv ex w"
  show ?thesis
  proof (cases "supported (suffix_lower ex (filename file))")
    case False
    with i show ?thesis by (simp add: convert_file_chunked_def)
  next
    case True
    obtain tmp w1 where m: "mkdtemp w = (tmp, w1)" by (cases "mkdtemp w") auto
    obtain w2 r where b: "convert_file_chunked_try ex file im ctx mt (suffix_lower ex (filename file)) tmp w1 = (w2, r)"
      by (cases "convert_file_chunked_try ex file im ctx mt (suffix_lower ex (filename file)) tmp w1") auto
    obtain w3 ok where r: "rmtree ex With_exit tmp w2 = (w3, ok)"
      by (cases "rmtree ex With_exit tmp w2") auto
    from inside_convert_file_chunked_try [of tmp w1 ex "file" im ctx mt "suffix_lower ex (filename file)"] b
    have "inside tmp w1 w2"
      by simp
    from inv_with_tempdir [OF i m this r] have "inv ex w3" by simp
    moreover from True m b r have "fst (convert_file_chunked ex file im ctx mt w) = w3"
      by (auto simp: convert_file_chunked_def leave_tempdir_def split: sum.splits bool.splits)
    ultimately show ?thesis by simp
  qed
qed

lemma inv_convert_multiple_files:
  "inv ex w \<Longrightarrow> inv ex (fst (convert_multiple_files ex files fmt uc ctx w))"
proof -
  assume i: "inv ex w"
  show ?thesis
  proof (cases "length files > 10")
    case True
    with i show ?thesis by (simp add: convert_multiple_files_def)
  next
    case False
    obtain tmp w1 where m: "mkdtemp w = (tmp, w1)" by (cases "mkdtemp w") auto
    obtain w2 rs cf where b: "foldl (multiple_file ex uc ctx tmp) (w1, [], []) files = (w2, rs, cf)"
      by (cases "foldl (multiple_file ex uc ctx tmp) (w1, [], []) files") auto
    obtain w3 ok where r: "rmtree ex With_exit tmp w2 = (w3, ok)"
      by (cases "rmtree ex With_exit tmp w2") auto
    from inside_multiple_loop [of tmp w1 ex uc ctx "[]" "[]" files] b have "inside tmp w1 w2"
      by simp
    from inv_with_tempdir [OF i m this r] have "inv ex w3" by simp
    moreover from False m b r have "fst (convert_multiple_files ex files fmt uc ctx w) = w3"
      by (auto simp: convert_multiple_files_def leave_tempdir_def split: bool.splits)
    ultimately show ?thesis by simp
  qed
qed

lemma inv_convert_file_chunked_async:
  assumes i: "inv ex w"
  shows "inv ex (fst (convert_file_chunked_async ex file im ctx mt w))"
proof (cases "supported (suffix_lower ex (filename file))")
  case False
  with i show ?thesis by (simp add: convert_file_chunked_async_def)
next
  case True
  let ?w0 = "w\<lparr>uuid_count := Suc (uuid_count w)\<rparr>"
  let ?j = "uuid_count w"
  obtain tmp w1 where m: "mkdtemp ?w0 = (tmp, w1)" by (cases "mkdtemp ?w0") auto
  obtain w2 r where wr: "write_file ex tmp file w1 = (w2, r)"
    by (cases "write_file ex tmp file w1") auto
  from inside_write_file [of tmp w1 ex "file"] wr have ins: "inside tmp w1 w2" by simp
  from m have tmp: "tmp = dir_count w" and w1: "job_store w1 = job_store w" "background w1 = background w"
    "uuid_count w1 = Suc (uuid_count w)" "dir_count w1 = Suc (dir_count w)"
    "disk w1 = (disk w)(tmp \<mapsto> Map.empty)" "\<And>d. removals (calls w1) d = removals (calls w) d"
    by (auto simp: mkdtemp_def called_def)
  from ins have w2: "job_store w2 = job_store w1" "background w2 = background w1"
    "uuid_count w2 = uuid_count w1" "dir_count w2 = dir_count w1"
    "\<And>d. d \<noteq> tmp \<Longrightarrow> disk w2 d = disk w1 d" "disk w2 tmp \<noteq> None"
    "\<And>d. removals (calls w2) d = removals (calls w1) d"
    using w1 by (auto simp: inside_def)
  show ?thesis
  proof (cases r)
    case (Inl e)
    obtain w3 ok where rm: "rmtree ex Line_700 tmp w2 = (w3, ok)"
      by (cases "rmtree ex Line_700 tmp w2") auto
    from inv_with_tempdir [OF i m ins rm] have "inv ex w3" by simp
    moreover from True m wr Inl rm w2 have "fst (convert_file_chunked_async ex file im ctx mt w) = w3"
      by (auto simp: convert_file_chunked_async_def Let_def split: bool.splits)
    ultimately show ?thesis by simp
  next
    case (Inr u)
    define rec where "rec = \<lparr>job_id = ?j, status = Queued, progress = 0, message = msg_queued,
                           job_filename = filename file, file_size = length (content file),
                           created_at = isoformat ex (clock w2), temp_dir = tmp, result = None,
                           completed_at = None, error = None, failed_at = None\<rparr>"
    define t where "t = \<lparr>pc = L435, file_path = (tmp, filename file),
                           arg_filename = filename file,
                           arg_file_extension = suffix_lower ex (filename file),
                           arg_include_metadata = im, arg_contextualize = ctx,
                           arg_max_tokens = mt\<rparr>"
    define w3 where "w3 = w2\<lparr>job_store := (job_store w2)(?j \<mapsto> rec),
                              background := (background w2)(?j \<mapsto> t)\<rparr>"
    from True m wr Inr have eq: "fst (convert_file_chunked_async ex file im ctx mt w) = w3"
      by (simp add: convert_file_chunked_async_def Let_def w3_def rec_def t_def)
    from invD_fresh [OF i, of ?j] have nb: "background w ?j = None" by simp
    have nj: "job_store w ?j = None"
    proof (cases "job_store w ?j")
      case (Some r0)
      from invD_job [OF i Some] nb show ?thesis by simp
    qed simp
    from invD_dirs [OF i] have d0: "\<And>d. disk w d \<noteq> None \<Longrightarrow> d < dir_count w \<and> removals (calls w) d = []"
      "\<And>d. dir_count w \<le> d \<Longrightarrow> removals (calls w) d = []"
      "\<And>d. length (removals (calls w) d) \<le> 1"
      by (auto simp: dirs_ok_def)
    have wt: "workspace t = tmp" by (simp add: t_def workspace_def)
    have "inv ex w3"
      unfolding inv_def
    proof (intro conjI allI impI)
      fix j assume "uuid_count w3 \<le> j"
      then have "uuid_count w \<le> j" "j \<noteq> ?j" using w1 w2 by (simp_all add: w3_def)
      with invD_fresh [OF i this(1)] w1 w2 show "background w3 j = None"
        by (simp add: w3_def)
    next
      fix j r assume a: "job_store w3 j = Some r"
      show "\<exists>t. background w3 j = Some t \<and> job_at ex t (pc t) r \<and> temp_dir r = workspace t"
      proof (cases "j = ?j")
        case True
        with a have "r = rec" by (simp add: w3_def)
        with True wt show ?thesis
          by (simp add: w3_def rec_def t_def untouched_def)
      next
        case False
        with a w1 w2 have "job_store w j = Some r" by (simp add: w3_def)
        from invD_job [OF i this] False w1 w2 show ?thesis
          by (simp add: w3_def)
      qed
    next
      fix j s assume a: "background w3 j = Some s"
      show "workspace s < dir_count w3"
      proof (cases "j = ?j")
        case True
        with a wt tmp w1 w2 show ?thesis by (simp add: w3_def)
      next
        case False
        with a w1 w2 have "background w j = Some s" by (simp add: w3_def)
        from invD_task [OF i this] w1 w2 show ?thesis by (simp add: w3_def)
      qed
      show "pc_ok ex s (pc s)"
      proof (cases "j = ?j")
        case True
        with a have "s = t" by (simp add: w3_def)
        then show ?thesis by (simp add: t_def)
      next
        case False
        with a w1 w2 have "background w j = Some s" by (simp add: w3_def)
        from invD_task [OF i this] show ?thesis by simp
      qed
      show "ws_ok ex w3 j s"
      proof (cases "j = ?j")
        case True
        with a have "s = t" by (simp add: w3_def)
        with True wt w1 w2 d0(2) [of tmp] tmp show ?thesis
          by (simp add: ws_ok_def ws_state_def w3_def t_def)
      next
        case False
        with a w1 w2 have b: "background w j = Some s" by (simp add: w3_def)
        from invD_task [OF i b] have "workspace s < dir_count w" "ws_ok ex w j s" by simp_all
        with False tmp w1 w2 show ?thesis
          by (simp add: ws_ok_def w3_def)
      qed
    next
      fix j j' s s'
      assume a: "background w3 j = Some s \<and> background w3 j' = Some s' \<and> workspace s = workspace s'"
      have old: "background w k = Some u \<and> workspace u < tmp" if "background w3 k = Some u" "k \<noteq> ?j" for k u
      proof -
        from that w1 w2 have "background w k = Some u" by (simp add: w3_def)
        with invD_task [OF i this] tmp show ?thesis by simp
      qed
      show "j = j'"
      proof (cases "j = ?j")
        case True
        with a have s: "workspace s = tmp" using wt by (simp add: w3_def)
        show ?thesis
        proof (rule ccontr)
          assume "j \<noteq> j'"
          with True have "j' \<noteq> ?j" by simp
          from old [OF _ this] a s show False by auto
        qed
      next
        case False
        from old [OF _ False] a have 1: "background w j = Some s" "workspace s < tmp" by auto
        show ?thesis
        proof (cases "j' = ?j")
          case True
          with a have "workspace s' = tmp" using wt by (simp add: w3_def)
          with a 1 show ?thesis by simp
        next
          case False
          from old [OF _ False] a have "background w j' = Some s'" by auto
          from invD_distinct [OF i 1(1) this] a show ?thesis by simp
        qed
      qed
    next
      show "dirs_ok w3"
        unfolding dirs_ok_def
      proof (intro allI)
        fix d
        show "(disk w3 d \<noteq> None \<longrightarrow> d < dir_count w3 \<and> removals (calls w3) d = []) \<and>
         (dir_count w3 \<le> d \<longrightarrow> removals (calls w3) d = []) \<and>
         length (removals (calls w3) d) \<le> 1"
        proof (cases "d = tmp")
          case True
          with d0(2) [of tmp] tmp w1 w2 show ?thesis
            by (simp add: w3_def)
        next
          case False
          with d0 [of d] tmp w1 w2 show ?thesis
            by (auto simp: w3_def)
        qed
      qed
    qed
    with eq show ?thesis by simp
  qed
qed

lemma inv_step: "inv ex w \<Longrightarrow> inv ex (step ex w e)"
  by (cases e)
     (simp_all add: inv_convert_file inv_convert_file_chunked inv_convert_file_chunked_async
        inv_convert_multiple_files inv_delete inv_statement inv_tick)

lemma inv_run: "inv ex w \<Longrightarrow> inv ex (run ex w es)"
  unfolding run_def by (induction es arbitrary: w) (simp_all add: inv_step)

lemma inv_reachable: "inv ex (run ex init es)"
  by (rule inv_run [OF inv_init])

end
